theory Spec2Isabelle
  imports Main
begin

section \<open>JavaScript idioms used by the sources\<close>

text \<open>
  Strings are lists of code units, so \<open>length\<close> is JavaScript's \<open>.length\<close> and
  \<open>s.substring(0, n)\<close> is \<open>take n s\<close>.  An optional field (\<open>x?: T\<close>, or a nullable
  column) is an \<open>option\<close>.  Instants (\<open>Date\<close> values, ISO texts of dates,
  \<open>CURRENT_TIMESTAMP\<close>) are natural numbers; the clock is an argument of every
  operation that reads it.
\<close>

definition substring0 :: "nat \<Rightarrow> string \<Rightarrow> string" where
  "substring0 n s = take n s"

text \<open>\<open>s || null\<close> on an optional string: the empty string is falsy.\<close>

definition or_null :: "string option \<Rightarrow> string option" where
  "or_null s = (case s of None \<Rightarrow> None | Some x \<Rightarrow> if x = [] then None else Some x)"

text \<open>\<open>n || d\<close> on an optional number: zero is falsy.\<close>

definition num_or :: "nat option \<Rightarrow> nat \<Rightarrow> nat" where
  "num_or n d = (case n of None \<Rightarrow> d | Some k \<Rightarrow> if k = 0 then d else k)"

section \<open>The store: tables and triggers\<close>

text \<open>
  The columns of the table \<open>emails\<close>: those of the \<open>CREATE TABLE IF NOT EXISTS emails\<close> of
  \<open>email-db.ts\<close>, then \<open>imap_uid\<close>, added by the migration \<open>add-imap-uid.sql\<close>.

  \<open>database-manager.ts\<close> has a \<open>CREATE TABLE IF NOT EXISTS emails\<close> of its own, with the
  columns in camelCase (\<open>messageId\<close>, \<open>toAddresses\<close>, ...).  Every other statement of both
  files, the \<open>CREATE INDEX\<close> statements of \<open>DatabaseManager.initializeDatabase\<close> included,
  names the columns in snake_case, so on a table created by that statement the constructor
  of \<open>DatabaseManager\<close> itself throws; the table in use is the one of \<open>email-db.ts\<close>.
\<close>

definition emails_columns :: "string list" where
  "emails_columns =
     [''id'', ''message_id'', ''thread_id'', ''in_reply_to'', ''email_references'',
      ''date_sent'', ''date_received'', ''subject'', ''from_address'', ''from_name'',
      ''reply_to'', ''body_text'', ''body_html'', ''snippet'',
      ''is_read'', ''is_starred'', ''is_important'', ''is_draft'', ''is_sent'',
      ''is_trash'', ''is_spam'', ''size_bytes'', ''has_attachments'', ''attachment_count'',
      ''folder'', ''labels'', ''raw_headers'', ''created_at'', ''updated_at'',
      ''imap_uid'']"

text \<open>
  \<open>db.prepare\<close> of a statement on \<open>emails\<close>, given the columns the statement names in the
  order of its text: SQLite refuses the statement at the first column the table does not
  have (\<open>table emails has no column named ...\<close>).
\<close>

datatype sql_error = NoSuchColumn string

definition prepare :: "string list \<Rightarrow> sql_error option" where
  "prepare cols =
     (case filter (\<lambda>c. c \<notin> set emails_columns) cols of
        [] \<Rightarrow> None
      | c # _ \<Rightarrow> Some (NoSuchColumn c))"

text \<open>
  One row of the \<open>emails\<close> table.  The fields are the columns of \<open>emails_columns\<close> and the
  three columns \<open>to_addresses\<close>, \<open>cc_addresses\<close> and \<open>bcc_addresses\<close>, which the table does
  not have: they are named by the \<open>INSERT\<close> of \<open>upsertEmail\<close> and read by
  \<open>mapRowToEmailRecord\<close> (as \<open>undefined\<close>) only, and are \<open>None\<close> in every row that a
  statement of the sources writes.  The \<open>labels\<close> column holds the JSON text of an array of
  strings; \<open>JSON.stringify\<close> and \<open>JSON.parse\<close> are inverse on such arrays, so the model
  keeps the array itself.
\<close>

record email_row =
  row_id :: nat
  message_id :: string
  imap_uid :: "nat option"
  thread_id :: "string option"
  in_reply_to :: "string option"
  email_references :: "string option"
  date_sent :: nat
  date_received :: nat
  subject :: "string option"
  from_address :: string
  from_name :: "string option"
  to_addresses :: "string option"
  cc_addresses :: "string option"
  bcc_addresses :: "string option"
  reply_to :: "string option"
  body_text :: "string option"
  body_html :: "string option"
  snippet :: "string option"
  is_read :: bool
  is_starred :: bool
  is_important :: bool
  is_draft :: bool
  is_sent :: bool
  is_trash :: bool
  is_spam :: bool
  size_bytes :: nat
  has_attachments :: bool
  attachment_count :: nat
  folder :: string
  labels :: "string list option"
  raw_headers :: "string option"
  created_at :: nat
  updated_at :: nat

text \<open>Rows of \<open>attachments\<close> and \<open>recipients\<close> (without their own surrogate keys and
  generated columns, which no statement of the sources reads or writes).\<close>

record attachment_row =
  att_email_id :: nat
  att_filename :: string
  att_content_type :: "string option"
  att_size_bytes :: nat
  att_content_id :: "string option"
  att_is_inline :: bool

datatype recipient_type = To | Cc | Bcc

record recipient_row =
  rcp_email_id :: nat
  rcp_type :: recipient_type
  rcp_address :: string
  rcp_name :: "string option"

record fts_row =
  fts_message_id :: string
  fts_subject :: "string option"
  fts_from_address :: string
  fts_from_name :: "string option"
  fts_body_text :: "string option"
  fts_recipient_addresses :: "string option"
  fts_attachment_names :: "string option"

text \<open>The database file.  \<open>next_email_id\<close> is the \<open>AUTOINCREMENT\<close> counter of
  \<open>emails.id\<close>.\<close>

record database =
  emails :: "email_row list"
  recipients :: "recipient_row list"
  attachments :: "attachment_row list"
  emails_fts :: "fts_row list"
  next_email_id :: nat

text \<open>Trigger \<open>emails_fts_insert\<close>: \<open>AFTER INSERT ON emails\<close>.\<close>

definition trigger_fts_insert :: "email_row \<Rightarrow> database \<Rightarrow> database" where
  "trigger_fts_insert new d =
     d\<lparr>emails_fts := emails_fts d @
        [\<lparr>fts_message_id = message_id new, fts_subject = subject new,
          fts_from_address = from_address new, fts_from_name = from_name new,
          fts_body_text = body_text new, fts_recipient_addresses = None,
          fts_attachment_names = None\<rparr>]\<rparr>"

text \<open>Trigger \<open>emails_fts_update\<close>: \<open>AFTER UPDATE ON emails\<close>.\<close>

definition trigger_fts_update :: "email_row \<Rightarrow> database \<Rightarrow> database" where
  "trigger_fts_update new d =
     d\<lparr>emails_fts :=
         map (\<lambda>f. if fts_message_id f = message_id new
                  then f\<lparr>fts_subject := subject new, fts_from_address := from_address new,
                         fts_from_name := from_name new, fts_body_text := body_text new\<rparr>
                  else f)
             (emails_fts d)\<rparr>"

text \<open>\<open>SELECT ... FROM emails WHERE message_id = ?\<close>, first row.\<close>

definition select_by_message_id :: "database \<Rightarrow> string \<Rightarrow> email_row option" where
  "select_by_message_id d m = find (\<lambda>r. message_id r = m) (emails d)"

section \<open>DatabaseManager (database-manager.ts)\<close>

text \<open>The interface \<open>EmailRecord\<close> of \<open>database-manager.ts\<close>.  Fields whose names
  coincide with a column carry a prime.\<close>

record EmailRecord =
  id' :: "nat option"
  messageId :: string
  imapUid :: "nat option"
  threadId :: "string option"
  inReplyTo :: "string option"
  emailReferences :: "string option"
  dateSent :: nat
  dateReceived :: "nat option"
  subject' :: "string option"
  fromAddress :: string
  fromName :: "string option"
  toAddresses :: "string option"
  ccAddresses :: "string option"
  bccAddresses :: "string option"
  replyTo :: "string option"
  bodyText :: "string option"
  bodyHtml :: "string option"
  snippet' :: "string option"
  isRead :: bool
  isStarred :: bool
  isImportant :: bool
  isDraft :: bool
  isSent :: bool
  isTrash :: bool
  isSpam :: bool
  sizeBytes :: nat
  hasAttachments :: bool
  attachmentCount :: nat
  folder' :: string
  labels' :: "string list option"
  rawHeaders :: "string option"

record Attachment =
  emailId' :: "nat option"
  filename :: string
  contentType :: "string option"
  attSizeBytes :: "nat option"
  contentId :: "string option"
  isInline :: "bool option"

text \<open>
  The values bound by \<open>upsertEmail\<close> to the columns of its \<open>INSERT ... ON CONFLICT\<close>
  statement.  The statement names the parameter \<open>$references\<close> while the binding object
  has the key \<open>$emailReferences\<close>; an unbound parameter is \<open>NULL\<close>, so
  \<open>email_references\<close> receives \<open>NULL\<close>.  The statement does not name \<open>imap_uid\<close>,
  \<open>created_at\<close> or \<open>id\<close>: the three arguments \<open>i\<close>, \<open>uid\<close> and \<open>created\<close> are what the
  row keeps (on conflict) or gets by default (on insert).
\<close>

definition upsert_values ::
  "nat \<Rightarrow> EmailRecord \<Rightarrow> Attachment list \<Rightarrow> nat \<Rightarrow> nat option \<Rightarrow> nat \<Rightarrow> email_row" where
  "upsert_values now email atts i uid created =
     \<lparr>row_id = i,
      message_id = messageId email,
      imap_uid = uid,
      thread_id = or_null (threadId email),
      in_reply_to = or_null (inReplyTo email),
      email_references = None,
      date_sent = dateSent email,
      date_received = (case dateReceived email of Some t \<Rightarrow> t | None \<Rightarrow> now),
      subject = or_null (subject' email),
      from_address = fromAddress email,
      from_name = or_null (fromName email),
      to_addresses = or_null (toAddresses email),
      cc_addresses = or_null (ccAddresses email),
      bcc_addresses = or_null (bccAddresses email),
      reply_to = or_null (replyTo email),
      body_text = or_null (bodyText email),
      body_html = or_null (bodyHtml email),
      snippet = (case or_null (snippet' email) of
                   Some s \<Rightarrow> Some s
                 | None \<Rightarrow> or_null (map_option (substring0 200) (bodyText email))),
      is_read = isRead email,
      is_starred = isStarred email,
      is_important = isImportant email,
      is_draft = isDraft email,
      is_sent = isSent email,
      is_trash = isTrash email,
      is_spam = isSpam email,
      size_bytes = sizeBytes email,
      has_attachments = (length atts > 0),
      attachment_count = length atts,
      folder = (if folder' email = [] then ''INBOX'' else folder' email),
      labels = labels' email,
      raw_headers = or_null (rawHeaders email),
      created_at = created,
      updated_at = now\<rparr>"

text \<open>
  The columns the statement names, in the order of its text: the column list of the
  \<open>INSERT\<close>, then \<open>updated_at\<close> of the \<open>DO UPDATE SET\<close> clause and \<open>id\<close> of
  \<open>RETURNING\<close>.
\<close>

definition upsert_columns :: "string list" where
  "upsert_columns =
     [''message_id'', ''thread_id'', ''in_reply_to'', ''email_references'',
      ''date_sent'', ''date_received'', ''subject'', ''from_address'', ''from_name'',
      ''to_addresses'', ''cc_addresses'', ''bcc_addresses'', ''reply_to'',
      ''body_text'', ''body_html'', ''snippet'',
      ''is_read'', ''is_starred'', ''is_important'', ''is_draft'', ''is_sent'',
      ''is_trash'', ''is_spam'', ''size_bytes'', ''has_attachments'',
      ''attachment_count'', ''folder'', ''labels'', ''raw_headers'',
      ''updated_at'', ''id'']"

text \<open>
  What the statement does when it runs, with its \<open>RETURNING id\<close> and the trigger it
  fires.  With \<open>AUTOINCREMENT\<close>, SQLite takes a new key for the row to insert before it
  finds the conflict, so the counter advances on the \<open>DO UPDATE\<close> path too.
\<close>

definition upsert_statement ::
  "nat \<Rightarrow> EmailRecord \<Rightarrow> Attachment list \<Rightarrow> database \<Rightarrow> nat \<times> database" where
  "upsert_statement now email atts d =
     (case select_by_message_id d (messageId email) of
        Some old \<Rightarrow>
          (let new = upsert_values now email atts (row_id old) (imap_uid old) (created_at old)
           in (row_id old,
               trigger_fts_update new
                 (d\<lparr>emails := map (\<lambda>r. if message_id r = messageId email then new else r)
                                  (emails d),
                    next_email_id := Suc (next_email_id d)\<rparr>)))
      | None \<Rightarrow>
          (let new = upsert_values now email atts (next_email_id d) None now
           in (next_email_id d,
               trigger_fts_insert new
                 (d\<lparr>emails := emails d @ [new], next_email_id := Suc (next_email_id d)\<rparr>))))"

definition insertAttachment :: "nat \<Rightarrow> Attachment \<Rightarrow> attachment_row" where
  "insertAttachment eid a =
     \<lparr>att_email_id = eid,
      att_filename = filename a,
      att_content_type = or_null (contentType a),
      att_size_bytes = num_or (attSizeBytes a) 0,
      att_content_id = or_null (contentId a),
      att_is_inline = (isInline a = Some True)\<rparr>"

text \<open>\<open>xs.join(sep)\<close>.\<close>

fun join :: "string \<Rightarrow> string list \<Rightarrow> string" where
  "join sep [] = []"
| "join sep [x] = x"
| "join sep (x # y # ys) = x @ sep @ join sep (y # ys)"

text \<open>
  \<open>upsertEmail\<close>.  The method first prepares its statements; \<open>db.prepare\<close> throws when
  SQLite refuses the statement, before the transaction is begun, and the exception leaves
  the method.  Otherwise the transaction runs; no statement of its body fails, so it
  commits and the key of the row is returned.
\<close>

definition upsertEmail ::
  "nat \<Rightarrow> EmailRecord \<Rightarrow> Attachment list \<Rightarrow> database \<Rightarrow> (sql_error + nat) \<times> database" where
  "upsertEmail now email atts d =
     (case prepare upsert_columns of
        Some e \<Rightarrow> (Inl e, d)
      | None \<Rightarrow>
          (let (eid, d1) = upsert_statement now email atts d
           in if length atts > 0
              then
                (let d2 = d1\<lparr>attachments :=
                               filter (\<lambda>a. att_email_id a \<noteq> eid) (attachments d1)\<rparr>;
                     d3 = d2\<lparr>attachments := attachments d2 @ map (insertAttachment eid) atts\<rparr>;
                     names = join '' '' (map filename atts);
                     d4 = d3\<lparr>emails_fts :=
                               map (\<lambda>f. if fts_message_id f = messageId email
                                        then f\<lparr>fts_attachment_names := Some names\<rparr> else f)
                                   (emails_fts d3)\<rparr>
                 in (Inr eid, d4))
              else (Inr eid, d1)))"

text \<open>
  The statements of the other operations modelled here name these columns of \<open>emails\<close>:
  the \<open>SELECT\<close> of \<open>getEmailByMessageId\<close> and of the existence check of the sync
  service, the \<open>UPDATE\<close> of \<open>updateEmailFlags\<close>, and the \<open>INSERT\<close> of
  \<open>EmailDatabase.insertEmail\<close>.  The table has all of them (\<open>imap_uid\<close> by the
  migration), so these statements are prepared, and their models have no such failure.
\<close>

definition select_columns :: "string list" where
  "select_columns = [''message_id'']"

definition update_flags_columns :: "string list" where
  "update_flags_columns =
     [''is_read'', ''is_starred'', ''is_important'', ''labels'', ''folder'', ''updated_at'',
      ''message_id'']"

definition insert_columns :: "string list" where
  "insert_columns =
     [''message_id'', ''imap_uid'', ''thread_id'', ''in_reply_to'', ''email_references'',
      ''date_sent'', ''date_received'', ''subject'', ''from_address'', ''from_name'',
      ''reply_to'', ''body_text'', ''body_html'', ''snippet'',
      ''is_read'', ''is_starred'', ''is_important'', ''is_draft'', ''is_sent'',
      ''is_trash'', ''is_spam'', ''size_bytes'', ''has_attachments'',
      ''attachment_count'', ''folder'', ''labels'', ''raw_headers'']"

text \<open>\<open>mapRowToEmailRecord\<close>.  The object it builds has no \<open>imapUid\<close> property.\<close>

definition mapRowToEmailRecord :: "email_row \<Rightarrow> EmailRecord" where
  "mapRowToEmailRecord row =
     \<lparr>id' = Some (row_id row),
      messageId = message_id row,
      imapUid = None,
      threadId = thread_id row,
      inReplyTo = in_reply_to row,
      emailReferences = email_references row,
      dateSent = date_sent row,
      dateReceived = Some (date_received row),
      subject' = subject row,
      fromAddress = from_address row,
      fromName = from_name row,
      toAddresses = to_addresses row,
      ccAddresses = cc_addresses row,
      bccAddresses = bcc_addresses row,
      replyTo = reply_to row,
      bodyText = body_text row,
      bodyHtml = body_html row,
      snippet' = snippet row,
      isRead = is_read row,
      isStarred = is_starred row,
      isImportant = is_important row,
      isDraft = is_draft row,
      isSent = is_sent row,
      isTrash = is_trash row,
      isSpam = is_spam row,
      sizeBytes = size_bytes row,
      hasAttachments = has_attachments row,
      attachmentCount = attachment_count row,
      folder' = folder row,
      labels' = Some (case labels row of Some ls \<Rightarrow> ls | None \<Rightarrow> []),
      rawHeaders = raw_headers row\<rparr>"

definition getEmailByMessageId :: "database \<Rightarrow> string \<Rightarrow> EmailRecord option" where
  "getEmailByMessageId d m = map_option mapRowToEmailRecord (select_by_message_id d m)"

text \<open>The \<open>updates\<close> argument of \<open>updateEmailFlags\<close>.\<close>

record FlagUpdates =
  upd_isRead :: "bool option"
  upd_isStarred :: "bool option"
  upd_isImportant :: "bool option"
  upd_labels :: "string list option"
  upd_folder :: "string option"

definition no_updates :: FlagUpdates where
  "no_updates = \<lparr>upd_isRead = None, upd_isStarred = None, upd_isImportant = None,
                  upd_labels = None, upd_folder = None\<rparr>"

text \<open>The \<open>SET\<close> clauses collected by \<open>updateEmailFlags\<close>, applied to one row.\<close>

definition set_clauses :: "nat \<Rightarrow> FlagUpdates \<Rightarrow> email_row \<Rightarrow> email_row" where
  "set_clauses now u r =
     r\<lparr>is_read := (case upd_isRead u of Some b \<Rightarrow> b | None \<Rightarrow> is_read r),
       is_starred := (case upd_isStarred u of Some b \<Rightarrow> b | None \<Rightarrow> is_starred r),
       is_important := (case upd_isImportant u of Some b \<Rightarrow> b | None \<Rightarrow> is_important r),
       labels := (case upd_labels u of Some ls \<Rightarrow> Some ls | None \<Rightarrow> labels r),
       folder := (case upd_folder u of Some f \<Rightarrow> f | None \<Rightarrow> folder r),
       updated_at := now\<rparr>"

text \<open>
  \<open>updateEmailFlags\<close>.  With no field provided only the \<open>updated_at\<close> clause was
  collected and the method returns before running any statement.  Otherwise the
  \<open>UPDATE\<close> rewrites every row with that message-id and fires the update trigger for
  each of them.
\<close>

definition updateEmailFlags :: "nat \<Rightarrow> string \<Rightarrow> FlagUpdates \<Rightarrow> database \<Rightarrow> database" where
  "updateEmailFlags now m u d =
     (if upd_isRead u = None \<and> upd_isStarred u = None \<and> upd_isImportant u = None
         \<and> upd_labels u = None \<and> upd_folder u = None
      then d
      else
        (let rows = map (\<lambda>r. if message_id r = m then set_clauses now u r else r) (emails d)
         in fold trigger_fts_update (filter (\<lambda>r. message_id r = m) rows) (d\<lparr>emails := rows\<rparr>)))"

section \<open>ImapManager (imap-manager.ts)\<close>

text \<open>The argument of \<open>buildImapSearchCriteria\<close>.  \<open>from\<close> and \<open>to\<close> are a string or an
  array of strings.\<close>

datatype addresses = Single string | Several "string list"

record DateRange =
  dr_start :: "nat option"
  dr_end :: "nat option"

record SearchCriteria =
  sc_query :: "string option"
  sc_from :: "addresses option"
  sc_to :: "addresses option"
  sc_subject :: "string option"
  sc_dateRange :: "DateRange option"
  sc_hasAttachments :: "bool option"
  sc_isUnread :: "bool option"
  sc_isStarred :: "bool option"
  sc_folder :: "string option"
  sc_folders :: "string list option"
  sc_labels :: "string list option"
  sc_threadId :: "string option"
  sc_limit :: "nat option"
  sc_offset :: "nat option"
  sc_minSize :: "nat option"
  sc_maxSize :: "nat option"
  sc_gmailQuery :: "string option"

text \<open>The nested arrays handed to \<open>imap.search\<close>.\<close>

datatype imap_term = Str string | Num nat | Date nat | Arr "imap_term list"

text \<open>The blocks for \<open>criteria.from\<close> and \<open>criteria.to\<close>: an empty string is falsy, an
  array (even an empty one) is truthy.\<close>

definition address_terms :: "string \<Rightarrow> addresses option \<Rightarrow> imap_term list" where
  "address_terms key a =
     (case a of
        None \<Rightarrow> []
      | Some (Single s) \<Rightarrow> if s = [] then [] else [Arr [Str key, Str s]]
      | Some (Several xs) \<Rightarrow>
          (case xs of
             [x] \<Rightarrow> [Arr [Str key, Str x]]
           | _ \<Rightarrow> [Arr (Str ''OR'' # map (\<lambda>addr. Arr [Str key, Str addr]) xs)]))"

definition buildImapSearchCriteria :: "SearchCriteria \<Rightarrow> imap_term list" where
  "buildImapSearchCriteria criteria =
     (case or_null (sc_gmailQuery criteria) of
        Some q \<Rightarrow> [Arr [Str ''X-GM-RAW'', Str q]]
      | None \<Rightarrow>
          (let searchCriteria =
                 (case or_null (sc_query criteria) of
                    Some q \<Rightarrow> [Arr [Str ''OR'', Arr [Str ''SUBJECT'', Str q],
                                               Arr [Str ''BODY'', Str q]]]
                  | None \<Rightarrow> [])
               @ address_terms ''FROM'' (sc_from criteria)
               @ address_terms ''TO'' (sc_to criteria)
               @ (case or_null (sc_subject criteria) of
                    Some s \<Rightarrow> [Arr [Str ''SUBJECT'', Str s]] | None \<Rightarrow> [])
               @ (case sc_dateRange criteria of
                    None \<Rightarrow> []
                  | Some r \<Rightarrow>
                      (case dr_start r of Some t \<Rightarrow> [Arr [Str ''SINCE'', Date t]] | None \<Rightarrow> [])
                      @ (case dr_end r of Some t \<Rightarrow> [Arr [Str ''BEFORE'', Date t]] | None \<Rightarrow> []))
               @ (if sc_hasAttachments criteria = Some True
                  then [Arr [Str ''KEYWORD'', Str ''has:attachment'']] else [])
               @ (case sc_isUnread criteria of
                    Some True \<Rightarrow> [Str ''UNSEEN'']
                  | Some False \<Rightarrow> [Str ''SEEN'']
                  | None \<Rightarrow> [])
               @ (if num_or (sc_minSize criteria) 0 = 0 then []
                  else [Arr [Str ''LARGER'', Num (num_or (sc_minSize criteria) 0)]])
               @ (if num_or (sc_maxSize criteria) 0 = 0 then []
                  else [Arr [Str ''SMALLER'', Num (num_or (sc_maxSize criteria) 0)]])
           in if searchCriteria = [] then [Str ''ALL''] else searchCriteria))"

text \<open>
  The action methods.  Each one connects, opens the folder read-write and issues one
  command; the promise is rejected when any of the three fails.  A request is the
  folder with the command, and the server is a function that says, from the requests
  issued so far, whether the next one succeeds.
\<close>

datatype imap_command =
    AddFlags nat "string list"
  | DelFlags nat "string list"
  | Move nat string

type_synonym imap_request = "string \<times> imap_command"

definition Imap_markAsRead :: "nat \<Rightarrow> string \<Rightarrow> imap_request" where
  "Imap_markAsRead uid fld = (fld, AddFlags uid [CHR 0x5C # ''Seen''])"

definition Imap_markAsUnread :: "nat \<Rightarrow> string \<Rightarrow> imap_request" where
  "Imap_markAsUnread uid fld = (fld, DelFlags uid [CHR 0x5C # ''Seen''])"

definition Imap_starEmail :: "nat \<Rightarrow> string \<Rightarrow> imap_request" where
  "Imap_starEmail uid fld = (fld, AddFlags uid [CHR 0x5C # ''Flagged''])"

definition Imap_unstarEmail :: "nat \<Rightarrow> string \<Rightarrow> imap_request" where
  "Imap_unstarEmail uid fld = (fld, DelFlags uid [CHR 0x5C # ''Flagged''])"

definition Imap_archiveEmail :: "nat \<Rightarrow> string \<Rightarrow> imap_request" where
  "Imap_archiveEmail uid fld = (fld, Move uid ''[Gmail]/All Mail'')"

definition Imap_addLabel :: "nat \<Rightarrow> string \<Rightarrow> string \<Rightarrow> imap_request" where
  "Imap_addLabel uid label fld = (fld, AddFlags uid [''X-GM-LABELS'', label])"

definition Imap_removeLabel :: "nat \<Rightarrow> string \<Rightarrow> string \<Rightarrow> imap_request" where
  "Imap_removeLabel uid label fld = (fld, DelFlags uid [''X-GM-LABELS'', label])"

section \<open>ListenersManager (listeners-manager.ts)\<close>

datatype EventType =
    email_received | email_sent | email_starred | email_archived | email_labeled
  | scheduled_time

record ListenerConfig =
  cfg_id :: string
  cfg_name :: string
  cfg_description :: "string option"
  cfg_enabled :: bool
  cfg_event :: EventType

datatype priority = low | normal | high

record notification =
  n_type :: string
  n_listenerId :: string
  n_listenerName :: string
  n_priority :: priority
  n_message :: string
  n_timestamp :: nat

text \<open>What a method, a handler or a run can throw.\<close>

datatype error =
    EmailNotFound string
  | EmailMissingImapUid string
  | ImapRejected imap_request
  | CallAgentNotImplemented
  | Thrown string
  | ConnectionFailed
  | FetchFailed nat
  | UniqueConstraint string

text \<open>Of the console output the model keeps the three lines written by the
  dispatcher.\<close>

datatype console_line =
    Triggering nat EventType
  | ExecutedSuccessfully string
  | HandlerFailed string error

text \<open>Everything the engine can change: the database file, the requests issued to the
  IMAP server, the notifications handed to the host, the console, the UIDs fetched by
  a sync run; and the clock.\<close>

record world =
  db :: database
  imap_log :: "imap_request list"
  notifications :: "notification list"
  console :: "console_line list"
  fetched :: "nat list"
  clock :: nat

text \<open>
  The methods of \<open>ListenerContext\<close>.  A handler is code that calls these methods and
  looks at what they return or throw; it is a tree whose nodes are the calls and whose
  branches are the outcomes.  Handlers that never return are not modelled.
\<close>

datatype ctx_call =
    notify string "priority option"
  | archiveEmail string
  | starEmail string
  | unstarEmail string
  | markAsRead string
  | markAsUnread string
  | addLabel string string
  | removeLabel string string
  | callAgent

datatype handler_prog =
    Return
  | Throw error
  | Await ctx_call "error + unit \<Rightarrow> handler_prog"

record 'p ListenerModule =
  config :: ListenerConfig
  handler :: "'p \<Rightarrow> handler_prog"

text \<open>
  The fields of the class.  \<open>imapManager\<close> and \<open>databaseManager\<close> are the two objects
  given to the constructor: of the first the model keeps the server behind it, of the
  second the lookup \<open>getEmailByMessageId\<close> through which the context reads the store.
  The writes of the context go through \<open>updateEmailFlags\<close> above.
\<close>

record 'p ListenersManager =
  listeners :: "(string \<times> 'p ListenerModule) list"
  notificationCallback :: bool
  imapManager :: "imap_request list \<Rightarrow> imap_request \<Rightarrow> bool"
  databaseManager :: "database \<Rightarrow> string \<Rightarrow> EmailRecord option"

text \<open>\<open>Map.prototype.set\<close>: a known key keeps its place, a new key goes last.\<close>

fun map_set :: "'k \<Rightarrow> 'v \<Rightarrow> ('k \<times> 'v) list \<Rightarrow> ('k \<times> 'v) list" where
  "map_set k v [] = [(k, v)]"
| "map_set k v ((k', v') # kvs) =
     (if k' = k then (k, v) # kvs else (k', v') # map_set k v kvs)"

text \<open>\<open>await this.imapManager.<method>(...)\<close>.\<close>

definition imap_await ::
  "'p ListenersManager \<Rightarrow> imap_request \<Rightarrow> world \<Rightarrow> (error + unit) \<times> world" where
  "imap_await this rq w =
     (if imapManager this (imap_log w) rq
      then (Inr (), w\<lparr>imap_log := imap_log w @ [rq]\<rparr>)
      else (Inl (ImapRejected rq), w\<lparr>imap_log := imap_log w @ [rq]\<rparr>))"

text \<open>
  The common opening of the seven email methods: look the email up, throw when there
  is none, throw when \<open>!email.imapUid\<close> (absent or zero).
\<close>

definition resolve_email ::
  "'p ListenersManager \<Rightarrow> string \<Rightarrow> world \<Rightarrow> error + (EmailRecord \<times> nat)" where
  "resolve_email this emailId w =
     (case databaseManager this (db w) emailId of
        None \<Rightarrow> Inl (EmailNotFound emailId)
      | Some email \<Rightarrow>
          (case imapUid email of
             None \<Rightarrow> Inl (EmailMissingImapUid emailId)
           | Some uid \<Rightarrow>
               if uid = 0 then Inl (EmailMissingImapUid emailId) else Inr (email, uid)))"

text \<open>The common rest: the IMAP operation first and, only when it did not throw, the
  call of \<open>updateEmailFlags\<close> (if the method makes one).\<close>

definition remote_then_local ::
  "'p ListenersManager \<Rightarrow> imap_request \<Rightarrow> string \<Rightarrow> FlagUpdates option \<Rightarrow> world
     \<Rightarrow> (error + unit) \<times> world" where
  "remote_then_local this rq emailId updates w =
     (case imap_await this rq w of
        (Inl e, w1) \<Rightarrow> (Inl e, w1)
      | (Inr _, w1) \<Rightarrow>
          (Inr (),
           (case updates of
              None \<Rightarrow> w1
            | Some u \<Rightarrow> w1\<lparr>db := updateEmailFlags (clock w1) emailId u (db w1)\<rparr>)))"

text \<open>\<open>createContext(listenerConfig)\<close>: the object of methods, as a function of the
  method called.\<close>

fun createContext ::
  "'p ListenersManager \<Rightarrow> ListenerConfig \<Rightarrow> ctx_call \<Rightarrow> world \<Rightarrow> (error + unit) \<times> world" where
  "createContext this listenerConfig (notify message prio) w =
     (if notificationCallback this
      then (Inr (),
            w\<lparr>notifications := notifications w @
                [\<lparr>n_type = ''listener_notification'',
                  n_listenerId = cfg_id listenerConfig,
                  n_listenerName = cfg_name listenerConfig,
                  n_priority = (case prio of Some p \<Rightarrow> p | None \<Rightarrow> normal),
                  n_message = message,
                  n_timestamp = clock w\<rparr>]\<rparr>)
      else (Inr (), w))"
| "createContext this listenerConfig (archiveEmail emailId) w =
     (case resolve_email this emailId w of
        Inl e \<Rightarrow> (Inl e, w)
      | Inr (email, uid) \<Rightarrow>
          remote_then_local this (Imap_archiveEmail uid (folder' email)) emailId
            (Some (no_updates\<lparr>upd_folder := Some ''[Gmail]/All Mail''\<rparr>)) w)"
| "createContext this listenerConfig (starEmail emailId) w =
     (case resolve_email this emailId w of
        Inl e \<Rightarrow> (Inl e, w)
      | Inr (email, uid) \<Rightarrow>
          remote_then_local this (Imap_starEmail uid (folder' email)) emailId
            (Some (no_updates\<lparr>upd_isStarred := Some True\<rparr>)) w)"
| "createContext this listenerConfig (unstarEmail emailId) w =
     (case resolve_email this emailId w of
        Inl e \<Rightarrow> (Inl e, w)
      | Inr (email, uid) \<Rightarrow>
          remote_then_local this (Imap_unstarEmail uid (folder' email)) emailId
            (Some (no_updates\<lparr>upd_isStarred := Some False\<rparr>)) w)"
| "createContext this listenerConfig (markAsRead emailId) w =
     (case resolve_email this emailId w of
        Inl e \<Rightarrow> (Inl e, w)
      | Inr (email, uid) \<Rightarrow>
          remote_then_local this (Imap_markAsRead uid (folder' email)) emailId
            (Some (no_updates\<lparr>upd_isRead := Some True\<rparr>)) w)"
| "createContext this listenerConfig (markAsUnread emailId) w =
     (case resolve_email this emailId w of
        Inl e \<Rightarrow> (Inl e, w)
      | Inr (email, uid) \<Rightarrow>
          remote_then_local this (Imap_markAsUnread uid (folder' email)) emailId
            (Some (no_updates\<lparr>upd_isRead := Some False\<rparr>)) w)"
| "createContext this listenerConfig (addLabel emailId label) w =
     (case resolve_email this emailId w of
        Inl e \<Rightarrow> (Inl e, w)
      | Inr (email, uid) \<Rightarrow>
          (let currentLabels = (case labels' email of Some ls \<Rightarrow> ls | None \<Rightarrow> [])
           in remote_then_local this (Imap_addLabel uid label (folder' email)) emailId
                (if label \<in> set currentLabels then None
                 else Some (no_updates\<lparr>upd_labels := Some (currentLabels @ [label])\<rparr>)) w))"
| "createContext this listenerConfig (removeLabel emailId label) w =
     (case resolve_email this emailId w of
        Inl e \<Rightarrow> (Inl e, w)
      | Inr (email, uid) \<Rightarrow>
          (let currentLabels = (case labels' email of Some ls \<Rightarrow> ls | None \<Rightarrow> [])
           in remote_then_local this (Imap_removeLabel uid label (folder' email)) emailId
                (Some (no_updates\<lparr>upd_labels := Some (filter (\<lambda>l. l \<noteq> label) currentLabels)\<rparr>))
                w))"
| "createContext this listenerConfig callAgent w = (Inl CallAgentNotImplemented, w)"

text \<open>\<open>await listener.handler(data, context)\<close>.\<close>

primrec run_handler ::
  "'p ListenersManager \<Rightarrow> ListenerConfig \<Rightarrow> handler_prog \<Rightarrow> world \<Rightarrow> (error + unit) \<times> world" where
  "run_handler this listenerConfig Return w = (Inr (), w)"
| "run_handler this listenerConfig (Throw e) w = (Inl e, w)"
| "run_handler this listenerConfig (Await c k) w =
     (case createContext this listenerConfig c w of
        (r, w') \<Rightarrow> run_handler this listenerConfig (k r) w')"

text \<open>A \<open>for\<close> loop whose body may throw: the first exception ends the loop.\<close>

fun for_each ::
  "('a \<Rightarrow> 's \<Rightarrow> (error + unit) \<times> 's) \<Rightarrow> 'a list \<Rightarrow> 's \<Rightarrow> (error + unit) \<times> 's" where
  "for_each body [] s = (Inr (), s)"
| "for_each body (x # xs) s =
     (case body x s of
        (Inl e, s') \<Rightarrow> (Inl e, s')
      | (Inr _, s') \<Rightarrow> for_each body xs s')"

text \<open>The body of the loop of \<open>checkEvent\<close>, a \<open>try\<close> with its \<open>catch\<close>.\<close>

definition invoke_listener ::
  "'p ListenersManager \<Rightarrow> 'p \<Rightarrow> 'p ListenerModule \<Rightarrow> world \<Rightarrow> (error + unit) \<times> world" where
  "invoke_listener this data listener w =
     (case run_handler this (config listener) (handler listener data) w of
        (Inr _, w') \<Rightarrow>
          (Inr (), w'\<lparr>console := console w' @ [ExecutedSuccessfully (cfg_id (config listener))]\<rparr>)
      | (Inl error, w') \<Rightarrow>
          (Inr (), w'\<lparr>console := console w' @ [HandlerFailed (cfg_id (config listener)) error]\<rparr>))"

definition matchingListeners :: "'p ListenersManager \<Rightarrow> EventType \<Rightarrow> 'p ListenerModule list" where
  "matchingListeners this event =
     filter (\<lambda>listener. cfg_event (config listener) = event) (map snd (listeners this))"

definition checkEvent ::
  "'p ListenersManager \<Rightarrow> EventType \<Rightarrow> 'p \<Rightarrow> world \<Rightarrow> (error + unit) \<times> world" where
  "checkEvent this event data w =
     (if length (matchingListeners this event) = 0 then (Inr (), w)
      else for_each (invoke_listener this data) (matchingListeners this event)
             (w\<lparr>console := console w @
                  [Triggering (length (matchingListeners this event)) event]\<rparr>))"

text \<open>
  The listeners directory: what \<open>readdir\<close> returns or throws, and what the dynamic
  \<open>import\<close> of a file returns or throws.  A module may or may not export \<open>config\<close> and
  \<open>handler\<close>.
\<close>

record 'p module_exports =
  exp_config :: "ListenerConfig option"
  exp_handler :: "('p \<Rightarrow> handler_prog) option"

record 'p listeners_dir =
  readdir :: "error + string list"
  import_module :: "string \<Rightarrow> error + 'p module_exports"

definition endsWith :: "string \<Rightarrow> string \<Rightarrow> bool" where
  "endsWith s suffix = (length suffix \<le> length s \<and> drop (length s - length suffix) s = suffix)"

definition startsWith :: "string \<Rightarrow> string \<Rightarrow> bool" where
  "startsWith s prefix = (take (length prefix) s = prefix)"

definition loadListener ::
  "'p listeners_dir \<Rightarrow> string \<Rightarrow> 'p ListenersManager \<Rightarrow> 'p ListenersManager" where
  "loadListener dir file this =
     (case import_module dir file of
        Inl error \<Rightarrow> this
      | Inr module \<Rightarrow>
          (case (exp_config module, exp_handler module) of
             (Some c, Some h) \<Rightarrow>
               if cfg_enabled c
               then this\<lparr>listeners := map_set (cfg_id c) \<lparr>config = c, handler = h\<rparr> (listeners this)\<rparr>
               else this
           | _ \<Rightarrow> this))"

definition loadable :: "string \<Rightarrow> bool" where
  "loadable file = (endsWith file ''.ts'' \<and> \<not> startsWith file ''_'' \<and> \<not> startsWith file ''.'')"

definition loadAllListeners ::
  "'p listeners_dir \<Rightarrow> 'p ListenersManager \<Rightarrow> ListenerConfig list \<times> 'p ListenersManager" where
  "loadAllListeners dir this =
     (let cleared = this\<lparr>listeners := []\<rparr>;
          loaded =
            (case readdir dir of
               Inl error \<Rightarrow> cleared
             | Inr files \<Rightarrow>
                 fold (\<lambda>file m. if loadable file then loadListener dir file m else m) files cleared)
      in (map (\<lambda>l. config (snd l)) (listeners loaded), loaded))"

section \<open>EmailDatabase (email-db.ts)\<close>

text \<open>The interfaces \<open>EmailRecord\<close>, \<open>Recipient\<close> and \<open>Attachment\<close> of \<open>email-db.ts\<close>;
  their fields are the column names, here with a prefix.\<close>

record DbEmailRecord =
  e_id :: "nat option"
  e_message_id :: string
  e_imap_uid :: "nat option"
  e_thread_id :: "string option"
  e_in_reply_to :: "string option"
  e_email_references :: "string option"
  e_date_sent :: nat
  e_date_received :: "nat option"
  e_subject :: "string option"
  e_from_address :: string
  e_from_name :: "string option"
  e_reply_to :: "string option"
  e_body_text :: "string option"
  e_body_html :: "string option"
  e_snippet :: "string option"
  e_is_read :: "bool option"
  e_is_starred :: "bool option"
  e_is_important :: "bool option"
  e_is_draft :: "bool option"
  e_is_sent :: "bool option"
  e_is_trash :: "bool option"
  e_is_spam :: "bool option"
  e_size_bytes :: "nat option"
  e_has_attachments :: "bool option"
  e_attachment_count :: "nat option"
  e_folder :: "string option"
  e_labels :: "string list option"
  e_raw_headers :: "string option"

record DbRecipient =
  r_email_id :: nat
  r_type :: recipient_type
  r_address :: string
  r_name :: "string option"

record DbAttachment =
  a_email_id :: nat
  a_filename :: string
  a_content_type :: "string option"
  a_size_bytes :: "nat option"
  a_content_id :: "string option"
  a_is_inline :: "bool option"

text \<open>
  \<open>insertEmail\<close>: the body of the transaction.  The \<open>INSERT\<close> names the columns of
  \<open>insert_columns\<close>, among them \<open>imap_uid\<close>: the database is one to which the migration
  \<open>add-imap-uid.sql\<close> was applied, as its \<open>README\<close> asks (on a table without that
  column the statement cannot be prepared and no message is ever stored).  The \<open>INSERT\<close>
  has no conflict clause, so a row with the same message-id makes it fail on the
  \<open>UNIQUE\<close> constraint; the exception rolls the transaction back.
\<close>

definition insertEmail ::
  "nat \<Rightarrow> DbEmailRecord \<Rightarrow> DbRecipient list \<Rightarrow> DbAttachment list \<Rightarrow> database
     \<Rightarrow> error + (nat \<times> database)" where
  "insertEmail now email rcps atts d =
     (case select_by_message_id d (e_message_id email) of
        Some _ \<Rightarrow> Inl (UniqueConstraint (e_message_id email))
      | None \<Rightarrow>
          (let emailId = next_email_id d;
               new =
                 \<lparr>row_id = emailId,
                  message_id = e_message_id email,
                  imap_uid = (case e_imap_uid email of
                                Some u \<Rightarrow> if u = 0 then None else Some u | None \<Rightarrow> None),
                  thread_id = or_null (e_thread_id email),
                  in_reply_to = or_null (e_in_reply_to email),
                  email_references = or_null (e_email_references email),
                  date_sent = e_date_sent email,
                  date_received = (case e_date_received email of Some t \<Rightarrow> t | None \<Rightarrow> now),
                  subject = or_null (e_subject email),
                  from_address = e_from_address email,
                  from_name = or_null (e_from_name email),
                  to_addresses = None,
                  cc_addresses = None,
                  bcc_addresses = None,
                  reply_to = or_null (e_reply_to email),
                  body_text = or_null (e_body_text email),
                  body_html = or_null (e_body_html email),
                  snippet = (case or_null (e_snippet email) of
                               Some s \<Rightarrow> Some s
                             | None \<Rightarrow> or_null (map_option (substring0 200) (e_body_text email))),
                  is_read = (e_is_read email = Some True),
                  is_starred = (e_is_starred email = Some True),
                  is_important = (e_is_important email = Some True),
                  is_draft = (e_is_draft email = Some True),
                  is_sent = (e_is_sent email = Some True),
                  is_trash = (e_is_trash email = Some True),
                  is_spam = (e_is_spam email = Some True),
                  size_bytes = num_or (e_size_bytes email) 0,
                  has_attachments = (length atts > 0),
                  attachment_count = length atts,
                  folder = (case or_null (e_folder email) of Some f \<Rightarrow> f | None \<Rightarrow> ''INBOX''),
                  labels = e_labels email,
                  raw_headers = or_null (e_raw_headers email),
                  created_at = now,
                  updated_at = now\<rparr>;
               d1 = trigger_fts_insert new
                      (d\<lparr>emails := emails d @ [new], next_email_id := Suc emailId\<rparr>);
               d2 = d1\<lparr>recipients := recipients d1 @
                       map (\<lambda>r. \<lparr>rcp_email_id = emailId, rcp_type = r_type r,
                                  rcp_address = r_address r, rcp_name = or_null (r_name r)\<rparr>) rcps\<rparr>;
               d3 = d2\<lparr>attachments := attachments d2 @
                       map (\<lambda>a. \<lparr>att_email_id = emailId, att_filename = a_filename a,
                                  att_content_type = or_null (a_content_type a),
                                  att_size_bytes = num_or (a_size_bytes a) 0,
                                  att_content_id = or_null (a_content_id a),
                                  att_is_inline = (a_is_inline a = Some True)\<rparr>) atts\<rparr>;
               d4 = d3\<lparr>emails_fts :=
                       map (\<lambda>f. if fts_message_id f = e_message_id email
                                then f\<lparr>fts_recipient_addresses := Some (join '' '' (map r_address rcps)),
                                       fts_attachment_names := Some (join '' '' (map a_filename atts))\<rparr>
                                else f)
                           (emails_fts d3)\<rparr>
           in Inr (emailId, d4)))"

section \<open>EmailSyncService (email-sync.ts)\<close>

text \<open>The parsed message returned by \<open>fetchEmail\<close>, with the properties that
  \<open>syncEmails\<close> reads.  \<open>raw_headers_json\<close> is the text
  \<open>JSON.stringify(rawEmail.headers || {})\<close>.\<close>

record email_address =
  addr_address :: "string option"
  addr_name :: "string option"

datatype address_entry = WithValue "email_address list" | PlainString string | OtherEntry

datatype address_field = OneEntry address_entry | ManyEntries "address_entry list"

datatype references = RefString string | RefArray "string list"

record raw_attachment =
  ra_filename :: "string option"
  ra_contentType :: "string option"
  ra_size :: "nat option"
  ra_contentId :: "string option"
  ra_contentDisposition :: "string option"

record RawEmail =
  raw_messageId :: "string option"
  raw_threadId :: "string option"
  raw_references :: "references option"
  raw_inReplyTo :: "string option"
  raw_date :: "nat option"
  raw_subject :: "string option"
  raw_from_text :: "string option"
  raw_replyTo_text :: "string option"
  raw_text :: "string option"
  raw_html :: "string option"
  raw_attachments :: "raw_attachment list option"
  raw_headers_json :: string
  raw_to :: "address_field option"
  raw_cc :: "address_field option"
  raw_bcc :: "address_field option"

record SyncOptions =
  so_folder :: "string option"
  so_since :: "nat option"
  so_before :: "nat option"
  so_limit :: "int option"
  so_markAsRead :: "bool option"
  so_from :: "string option"
  so_to :: "string option"
  so_subject :: "string option"
  so_hasAttachments :: "bool option"
  so_unreadOnly :: "bool option"
  so_starredOnly :: "bool option"
  so_searchText :: "string option"
  so_excludeFolders :: "string list option"
  so_sizeMin :: "nat option"
  so_sizeMax :: "nat option"

text \<open>The interface \<open>Email\<close> handed to the listeners.\<close>

record Email =
  em_messageId :: string
  em_from :: string
  em_to :: string
  em_subject :: string
  em_body :: string
  em_date :: nat
  em_isRead :: bool
  em_hasAttachments :: bool
  em_labels :: "string list option"
  em_uid :: "nat option"

text \<open>
  \<open>EmailSearcher\<close> is the IMAP connection of the sync service: whether \<open>connect\<close> and
  opening a folder succeed, the UIDs a search returns, and the message a fetch
  returns, or the exception thrown instead.
\<close>

record EmailSearcher =
  es_connect :: bool
  es_open :: "string \<Rightarrow> bool"
  es_searchEmails :: "imap_term list \<Rightarrow> error + nat list"
  es_fetchEmail :: "nat \<Rightarrow> error + RawEmail"

text \<open>
  The fields of the service.  Two string functions are arguments of the model:
  \<open>toLowerCase\<close>, and the part of \<open>parseEmailAddress\<close> after its first line (the split
  at commas and the regular-expression match), which gives the address and the
  optional name of each part.
\<close>

record SyncService =
  emailSearcher :: EmailSearcher
  listenersManager :: "Email ListenersManager option"
  toLowerCase :: "string \<Rightarrow> string"
  split_and_match :: "string \<Rightarrow> (string \<times> string option) list"

record SyncStats =
  synced :: nat
  skipped :: nat
  errors :: nat

definition parseEmailAddress :: "SyncService \<Rightarrow> string \<Rightarrow> (string \<times> string option) list" where
  "parseEmailAddress this addressString =
     (if addressString = [] then [] else split_and_match this addressString)"

text \<open>One of the three blocks of \<open>extractRecipients\<close>.\<close>

definition entry_recipients ::
  "SyncService \<Rightarrow> recipient_type \<Rightarrow> nat \<Rightarrow> address_entry \<Rightarrow> DbRecipient list" where
  "entry_recipients this ty eid entry =
     (case entry of
        WithValue addrs \<Rightarrow>
          map (\<lambda>addr. \<lparr>r_email_id = eid, r_type = ty,
                       r_address = (case addr_address addr of
                                      Some a \<Rightarrow> toLowerCase this a | None \<Rightarrow> []),
                       r_name = addr_name addr\<rparr>) addrs
      | PlainString s \<Rightarrow>
          map (\<lambda>(a, n). \<lparr>r_email_id = eid, r_type = ty, r_address = a, r_name = n\<rparr>)
              (parseEmailAddress this s)
      | OtherEntry \<Rightarrow> [])"

definition field_recipients ::
  "SyncService \<Rightarrow> recipient_type \<Rightarrow> nat \<Rightarrow> address_field option \<Rightarrow> DbRecipient list" where
  "field_recipients this ty eid fld =
     (case fld of
        None \<Rightarrow> []
      | Some (OneEntry (PlainString [])) \<Rightarrow> []
      | Some (OneEntry e) \<Rightarrow> entry_recipients this ty eid e
      | Some (ManyEntries es) \<Rightarrow> concat (map (entry_recipients this ty eid) es))"

definition extractRecipients :: "SyncService \<Rightarrow> RawEmail \<Rightarrow> nat \<Rightarrow> DbRecipient list" where
  "extractRecipients this parsedEmail eid =
     field_recipients this To eid (raw_to parsedEmail)
     @ field_recipients this Cc eid (raw_cc parsedEmail)
     @ field_recipients this Bcc eid (raw_bcc parsedEmail)"

definition extractAttachments :: "RawEmail \<Rightarrow> nat \<Rightarrow> DbAttachment list" where
  "extractAttachments parsedEmail eid =
     (case raw_attachments parsedEmail of
        None \<Rightarrow> []
      | Some atts \<Rightarrow>
          map (\<lambda>att. \<lparr>a_email_id = eid,
                      a_filename = (case or_null (ra_filename att) of
                                      Some f \<Rightarrow> f | None \<Rightarrow> ''unnamed''),
                      a_content_type = ra_contentType att,
                      a_size_bytes = Some (num_or (ra_size att) 0),
                      a_content_id = ra_contentId att,
                      a_is_inline = Some (ra_contentDisposition att = Some ''inline'')\<rparr>) atts)"

text \<open>Decimal digits of a number, for the template literal
  \<open>`${uid}-${Date.now()}`\<close>.\<close>

fun show_nat :: "nat \<Rightarrow> string" where
  "show_nat n =
     (if n < 10 then [''0123456789'' ! n]
      else show_nat (n div 10) @ [''0123456789'' ! (n mod 10)])"

text \<open>\<open>uids.slice(0, limit)\<close>; a negative end counts from the end of the array.\<close>

definition slice0 :: "'a list \<Rightarrow> int \<Rightarrow> 'a list" where
  "slice0 xs n = (if 0 \<le> n then take (nat n) xs else take (length xs - nat (- n)) xs)"

text \<open>
  The search criteria built from the options.  Without \<open>since\<close> the code takes
  \<open>new Date()\<close> and sets its day of the month back by 30, in local time: the same time
  of day thirty calendar days earlier.  The model takes the instant 2592000000 ms (thirty
  times 24 hours) earlier, which is that instant except when the offset of local time
  from UTC changed in between, where the two differ by the change of the offset.
\<close>

definition sync_criteria :: "SyncOptions \<Rightarrow> nat \<Rightarrow> imap_term list" where
  "sync_criteria options t =
     (case so_since options of
        Some s \<Rightarrow> [Arr [Str ''SINCE'', Date s]]
      | None \<Rightarrow> [Arr [Str ''SINCE'', Date (t - 2592000000)]])
     @ (case so_before options of Some b \<Rightarrow> [Arr [Str ''BEFORE'', Date b]] | None \<Rightarrow> [])
     @ (case or_null (so_from options) of Some s \<Rightarrow> [Arr [Str ''FROM'', Str s]] | None \<Rightarrow> [])
     @ (case or_null (so_to options) of Some s \<Rightarrow> [Arr [Str ''TO'', Str s]] | None \<Rightarrow> [])
     @ (case or_null (so_subject options) of
          Some s \<Rightarrow> [Arr [Str ''SUBJECT'', Str s]] | None \<Rightarrow> [])
     @ (if so_unreadOnly options = Some True then [Str ''UNSEEN''] else [])
     @ (if so_starredOnly options = Some True then [Str ''FLAGGED''] else [])
     @ (case or_null (so_searchText options) of
          Some s \<Rightarrow> [Arr [Str ''TEXT'', Str s]] | None \<Rightarrow> [])
     @ (if num_or (so_sizeMin options) 0 = 0 then []
        else [Arr [Str ''LARGER'', Num (num_or (so_sizeMin options) 0)]])
     @ (if num_or (so_sizeMax options) 0 = 0 then []
        else [Arr [Str ''SMALLER'', Num (num_or (so_sizeMax options) 0)]])"

text \<open>The object literal \<open>emailRecord\<close>.\<close>

definition emailRecord_of :: "SyncService \<Rightarrow> SyncOptions \<Rightarrow> nat \<Rightarrow> RawEmail \<Rightarrow> nat \<Rightarrow> DbEmailRecord" where
  "emailRecord_of this options uid rawEmail t =
     (let fromParsed = parseEmailAddress this
                         (case raw_from_text rawEmail of Some s \<Rightarrow> s | None \<Rightarrow> [])
      in \<lparr>e_id = None,
          e_message_id = (case or_null (raw_messageId rawEmail) of
                            Some m \<Rightarrow> m | None \<Rightarrow> show_nat uid @ ''-'' @ show_nat t),
          e_imap_uid = Some uid,
          e_thread_id =
            (case or_null (raw_threadId rawEmail) of
               Some th \<Rightarrow> Some th
             | None \<Rightarrow>
                 (case raw_references rawEmail of
                    Some (RefString s) \<Rightarrow> Some (takeWhile (\<lambda>c. c \<noteq> CHR '' '') s)
                  | Some (RefArray rs) \<Rightarrow> (case rs of [] \<Rightarrow> None | r # _ \<Rightarrow> Some r)
                  | None \<Rightarrow> None)),
          e_in_reply_to = raw_inReplyTo rawEmail,
          e_email_references =
            (case raw_references rawEmail of
               Some (RefArray rs) \<Rightarrow> Some (join '' '' rs)
             | Some (RefString s) \<Rightarrow> Some s
             | None \<Rightarrow> None),
          e_date_sent = (case raw_date rawEmail of Some dt \<Rightarrow> dt | None \<Rightarrow> t),
          e_date_received = None,
          e_subject = raw_subject rawEmail,
          e_from_address =
            (case fromParsed of
               [] \<Rightarrow> ''unknown@unknown.com''
             | (a, n) # _ \<Rightarrow> if a = [] then ''unknown@unknown.com'' else a),
          e_from_name = (case fromParsed of [] \<Rightarrow> None | (a, n) # _ \<Rightarrow> n),
          e_reply_to = raw_replyTo_text rawEmail,
          e_body_text = raw_text rawEmail,
          e_body_html = raw_html rawEmail,
          e_snippet = map_option (substring0 200) (raw_text rawEmail),
          e_is_read = Some (so_markAsRead options = Some True),
          e_is_starred = None,
          e_is_important = None,
          e_is_draft = None,
          e_is_sent = None,
          e_is_trash = None,
          e_is_spam = None,
          e_size_bytes = None,
          e_has_attachments =
            Some (case raw_attachments rawEmail of Some as \<Rightarrow> length as > 0 | None \<Rightarrow> False),
          e_attachment_count =
            Some (case raw_attachments rawEmail of Some as \<Rightarrow> length as | None \<Rightarrow> 0),
          e_folder = Some (case or_null (so_folder options) of Some f \<Rightarrow> f | None \<Rightarrow> ''INBOX''),
          e_labels = None,
          e_raw_headers = Some (raw_headers_json rawEmail)\<rparr>)"

text \<open>The object literal \<open>emailForListener\<close>.\<close>

definition emailForListener_of :: "DbEmailRecord \<Rightarrow> DbRecipient list \<Rightarrow> Email" where
  "emailForListener_of emailRecord rcps =
     \<lparr>em_messageId = e_message_id emailRecord,
      em_from = e_from_address emailRecord,
      em_to = join '', '' (map r_address (filter (\<lambda>r. r_type r = To) rcps)),
      em_subject = (case e_subject emailRecord of Some s \<Rightarrow> s | None \<Rightarrow> []),
      em_body = (case e_body_text emailRecord of Some s \<Rightarrow> s | None \<Rightarrow> []),
      em_date = e_date_sent emailRecord,
      em_isRead = (e_is_read emailRecord = Some True),
      em_hasAttachments = (e_has_attachments emailRecord = Some True),
      em_labels = e_labels emailRecord,
      em_uid = e_imap_uid emailRecord\<rparr>"

text \<open>
  The statements inside the \<open>try\<close> of the loop, for one UID.  \<open>continue\<close> is a normal
  return; a \<open>throw\<close> is an \<open>Inl\<close>.
\<close>

definition try_uid ::
  "SyncService \<Rightarrow> SyncOptions \<Rightarrow> nat \<Rightarrow> SyncStats \<times> world \<Rightarrow> (error + unit) \<times> SyncStats \<times> world" where
  "try_uid this options uid sw =
     (let stats = fst sw;
          w = (snd sw)\<lparr>fetched := fetched (snd sw) @ [uid]\<rparr>
      in case es_fetchEmail (emailSearcher this) uid of
           Inl e \<Rightarrow> (Inl e, stats, w)
         | Inr rawEmail \<Rightarrow>
             if (case raw_messageId rawEmail of
                   Some m \<Rightarrow> select_by_message_id (db w) m \<noteq> None
                 | None \<Rightarrow> False)
             then (Inr (), stats\<lparr>skipped := skipped stats + 1\<rparr>, w)
             else if (case so_hasAttachments options of
                        Some b \<Rightarrow>
                          b \<noteq> (case raw_attachments rawEmail of
                                   Some as \<Rightarrow> length as > 0 | None \<Rightarrow> False)
                      | None \<Rightarrow> False)
             then (Inr (), stats\<lparr>skipped := skipped stats + 1\<rparr>, w)
             else
               (let emailRecord = emailRecord_of this options uid rawEmail (clock w);
                    rcps = extractRecipients this rawEmail 0;
                    atts = extractAttachments rawEmail 0
                in case insertEmail (clock w) emailRecord rcps atts (db w) of
                     Inl e \<Rightarrow> (Inl e, stats, w)
                   | Inr (emailId, d) \<Rightarrow>
                       (let stats1 = stats\<lparr>synced := synced stats + 1\<rparr>;
                            w1 = w\<lparr>db := d\<rparr>
                        in case listenersManager this of
                             None \<Rightarrow> (Inr (), stats1, w1)
                           | Some lm \<Rightarrow>
                               (case checkEvent lm email_received
                                       (emailForListener_of emailRecord rcps) w1 of
                                  (Inl e, w2) \<Rightarrow> (Inl e, stats1, w2)
                                | (Inr _, w2) \<Rightarrow> (Inr (), stats1, w2)))))"

text \<open>The body of the loop: the \<open>try\<close> with its \<open>catch\<close>, which counts the error.\<close>

definition process_uid ::
  "SyncService \<Rightarrow> SyncOptions \<Rightarrow> nat \<Rightarrow> SyncStats \<times> world \<Rightarrow> (error + unit) \<times> SyncStats \<times> world" where
  "process_uid this options uid sw =
     (case try_uid this options uid sw of
        (Inl e, stats, w) \<Rightarrow> (Inr (), stats\<lparr>errors := errors stats + 1\<rparr>, w)
      | (Inr _, stats, w) \<Rightarrow> (Inr (), stats, w))"

text \<open>\<open>limit = options.limit || uids.length\<close> and \<open>uidsToProcess = uids.slice(0, limit)\<close>.\<close>

definition uidsToProcess :: "SyncOptions \<Rightarrow> nat list \<Rightarrow> nat list" where
  "uidsToProcess options uids =
     (let limit = (case so_limit options of
                     Some l \<Rightarrow> if l = 0 then int (length uids) else l
                   | None \<Rightarrow> int (length uids))
      in slice0 uids limit)"

text \<open>
  \<open>syncEmails\<close>.  An exception outside the per-message \<open>try\<close> (connecting, opening the
  folder, searching) is thrown to the caller.
\<close>

definition syncEmails ::
  "SyncService \<Rightarrow> SyncOptions \<Rightarrow> world \<Rightarrow> (error + SyncStats) \<times> world" where
  "syncEmails this options w =
     (let stats = \<lparr>synced = 0, skipped = 0, errors = 0\<rparr>
      in if \<not> es_connect (emailSearcher this) then (Inl ConnectionFailed, w)
         else if \<not> es_open (emailSearcher this)
                     (case so_folder options of
                        Some f \<Rightarrow> if f = [] \<or> f = ''INBOX'' then ''INBOX'' else f
                      | None \<Rightarrow> ''INBOX'')
         then (Inl ConnectionFailed, w)
         else
           (case es_searchEmails (emailSearcher this) (sync_criteria options (clock w)) of
              Inl e \<Rightarrow> (Inl e, w)
            | Inr uids \<Rightarrow>
                (case for_each (process_uid this options) (uidsToProcess options uids)
                        (stats, w) of
                   (Inl e, stats', w') \<Rightarrow> (Inl e, w')
                 | (Inr _, stats', w') \<Rightarrow> (Inr stats', w'))))"

section \<open>Auxiliary notions and concrete inputs\<close>

text \<open>The email a context method is about (none for \<open>notify\<close> and \<open>callAgent\<close>).\<close>

fun target_email :: "ctx_call \<Rightarrow> string option" where
  "target_email (notify message prio) = None"
| "target_email (archiveEmail emailId) = Some emailId"
| "target_email (starEmail emailId) = Some emailId"
| "target_email (unstarEmail emailId) = Some emailId"
| "target_email (markAsRead emailId) = Some emailId"
| "target_email (markAsUnread emailId) = Some emailId"
| "target_email (addLabel emailId label) = Some emailId"
| "target_email (removeLabel emailId label) = Some emailId"
| "target_email callAgent = None"

text \<open>Search criteria with no field, with an empty \<open>gmailQuery\<close>, and those of the
  search-precedence scenario.\<close>

definition no_criteria :: SearchCriteria where
  "no_criteria =
     \<lparr>sc_query = None, sc_from = None, sc_to = None, sc_subject = None, sc_dateRange = None,
      sc_hasAttachments = None, sc_isUnread = None, sc_isStarred = None, sc_folder = None,
      sc_folders = None, sc_labels = None, sc_threadId = None, sc_limit = None,
      sc_offset = None, sc_minSize = None, sc_maxSize = None, sc_gmailQuery = None\<rparr>"

definition criteria_empty_gmailQuery :: SearchCriteria where
  "criteria_empty_gmailQuery =
     no_criteria\<lparr>sc_gmailQuery := Some [], sc_from := Some (Single ''boss@'')\<rparr>"

definition criteria_scenario5 :: SearchCriteria where
  "criteria_scenario5 =
     no_criteria\<lparr>sc_gmailQuery := Some ''is:unread from:me'', sc_from := Some (Single ''boss@'')\<rparr>"

text \<open>A new database file, a message as the sync service records it, and the store
  after that message was inserted at time 1.\<close>

definition empty_db :: database where
  "empty_db = \<lparr>emails = [], recipients = [], attachments = [], emails_fts = [],
               next_email_id = 1\<rparr>"

definition sample_record :: DbEmailRecord where
  "sample_record =
     \<lparr>e_id = None, e_message_id = ''<a@x>'', e_imap_uid = Some 7, e_thread_id = None,
      e_in_reply_to = None, e_email_references = None, e_date_sent = 1,
      e_date_received = None, e_subject = Some ''Weekly news'',
      e_from_address = ''news@noreply.site'', e_from_name = None, e_reply_to = None,
      e_body_text = Some ''hello'', e_body_html = None, e_snippet = Some ''hello'',
      e_is_read = Some False, e_is_starred = None, e_is_important = None,
      e_is_draft = None, e_is_sent = None, e_is_trash = None, e_is_spam = None,
      e_size_bytes = None, e_has_attachments = Some False, e_attachment_count = Some 0,
      e_folder = Some ''INBOX'', e_labels = None, e_raw_headers = None\<rparr>"

definition sample_db :: database where
  "sample_db = (case insertEmail 1 sample_record [] [] empty_db of
                  Inr (i, d) \<Rightarrow> d | Inl e \<Rightarrow> empty_db)"

definition sample_world :: world where
  "sample_world = \<lparr>db = sample_db, imap_log = [], notifications = [], console = [],
                    fetched = [], clock = 5\<rparr>"

definition sample_config :: ListenerConfig where
  "sample_config =
     \<lparr>cfg_id = ''auto_archive_newsletters'', cfg_name = ''Auto-Archive Newsletters'',
      cfg_description = None, cfg_enabled = True, cfg_event = email_received\<rparr>"

text \<open>
  A manager without listeners, constructed as \<open>server.ts\<close> does, with the
  \<open>DatabaseManager\<close> above, over a server that accepts every request or none.
\<close>

definition wired_manager :: "bool \<Rightarrow> Email ListenersManager" where
  "wired_manager accept =
     \<lparr>listeners = [], notificationCallback = True, imapManager = (\<lambda>log rq. accept),
      databaseManager = getEmailByMessageId\<rparr>"

text \<open>What the handlers cannot change in the store: the message-ids and the snippets of
  the rows, in their order.\<close>

definition store_frame :: "database \<Rightarrow> database \<Rightarrow> bool" where
  "store_frame d d' \<longleftrightarrow>
     map message_id (emails d') = map message_id (emails d)
   \<and> map snippet (emails d') = map snippet (emails d)"

text \<open>The labels stored for a message-id (none when there is no such row).\<close>

definition stored_labels :: "database \<Rightarrow> string \<Rightarrow> string list" where
  "stored_labels d m =
     (case select_by_message_id d m of
        Some r \<Rightarrow> (case labels r of Some ls \<Rightarrow> ls | None \<Rightarrow> [])
      | None \<Rightarrow> [])"

text \<open>The failure-isolation scenario: the first listener throws, the second one
  archives the message and rethrows what the method throws.  The manager is the one of
  \<open>server.ts\<close>, over a server that accepts every request.\<close>

definition throwing_listener :: "Email ListenerModule" where
  "throwing_listener =
     \<lparr>config = sample_config\<lparr>cfg_id := ''l1'', cfg_name := ''L1''\<rparr>,
      handler = (\<lambda>email. Throw (Thrown ''boom''))\<rparr>"

definition archiving_listener :: "Email ListenerModule" where
  "archiving_listener =
     \<lparr>config = sample_config\<lparr>cfg_id := ''l2'', cfg_name := ''L2''\<rparr>,
      handler = (\<lambda>email. Await (archiveEmail (em_messageId email))
                            (\<lambda>r. case r of Inl e \<Rightarrow> Throw e | Inr u \<Rightarrow> Return))\<rparr>"

definition scenario6_manager :: "Email ListenersManager" where
  "scenario6_manager =
     (wired_manager True)\<lparr>listeners := [(''l1'', throwing_listener), (''l2'', archiving_listener)]\<rparr>"


text \<open>
  The registrations a directory calls for: for each file name that ends in \<open>.ts\<close> and
  does not start with \<open>_\<close> or \<open>.\<close>, whose import succeeds, which exports both a
  \<open>config\<close> and a \<open>handler\<close> and whose \<open>config.enabled\<close> is true, the module under its
  \<open>config.id\<close>; in the order of the directory listing.
\<close>

definition registration :: "'p listeners_dir \<Rightarrow> string \<Rightarrow> (string \<times> 'p ListenerModule) option" where
  "registration dir file =
     (if endsWith file ''.ts'' \<and> \<not> startsWith file ''_'' \<and> \<not> startsWith file ''.''
      then (case import_module dir file of
              Inl e \<Rightarrow> None
            | Inr module \<Rightarrow>
                (case exp_config module of
                   None \<Rightarrow> None
                 | Some c \<Rightarrow>
                     (case exp_handler module of
                        None \<Rightarrow> None
                      | Some h \<Rightarrow>
                          if cfg_enabled c then Some (cfg_id c, \<lparr>config = c, handler = h\<rparr>)
                          else None)))
      else None)"

definition registrations :: "'p listeners_dir \<Rightarrow> (string \<times> 'p ListenerModule) list" where
  "registrations dir =
     (case readdir dir of
        Inl e \<Rightarrow> []
      | Inr files \<Rightarrow> List.map_filter (registration dir) files)"

text \<open>A directory with one good listener among files that must be passed over, and a
  directory in which two files export the same \<open>config.id\<close>.\<close>

definition good_exports :: "string \<Rightarrow> Email module_exports" where
  "good_exports i =
     \<lparr>exp_config = Some (sample_config\<lparr>cfg_id := i\<rparr>), exp_handler = Some (\<lambda>email. Return)\<rparr>"

definition mixed_dir :: "Email listeners_dir" where
  "mixed_dir =
     \<lparr>readdir = Inr [''broken.ts'', ''urgent.ts'', ''_draft.ts'', ''.hidden.ts'', ''notes.md'',
                     ''off.ts'', ''nohandler.ts'', ''archive.ts''],
      import_module = (\<lambda>file.
        if file = ''broken.ts'' then Inl (Thrown ''SyntaxError'')
        else if file = ''off.ts''
          then Inr \<lparr>exp_config = Some (sample_config\<lparr>cfg_id := ''off'', cfg_enabled := False\<rparr>),
                    exp_handler = Some (\<lambda>email. Return)\<rparr>
        else if file = ''nohandler.ts''
          then Inr \<lparr>exp_config = Some (sample_config\<lparr>cfg_id := ''nohandler''\<rparr>),
                    exp_handler = None\<rparr>
        else Inr (good_exports file))\<rparr>"

definition dup_dir :: "Email listeners_dir" where
  "dup_dir =
     \<lparr>readdir = Inr [''a.ts'', ''b.ts''],
      import_module = (\<lambda>file. Inr (good_exports ''dup''))\<rparr>"

text \<open>A stored snippet of at most 200 characters (or \<open>NULL\<close>).\<close>

definition snippet_ok :: "string option \<Rightarrow> bool" where
  "snippet_ok s = (case s of None \<Rightarrow> True | Some x \<Rightarrow> length x \<le> 200)"

text \<open>The post-fetch filter on attachments, and what makes a second look at a UID
  change nothing: its fetch fails, or its message-id is in the store, or the filter
  rejects it.\<close>

definition filtered_out :: "SyncOptions \<Rightarrow> RawEmail \<Rightarrow> bool" where
  "filtered_out options rawEmail =
     (case so_hasAttachments options of
        Some b \<Rightarrow> b \<noteq> (case raw_attachments rawEmail of Some as \<Rightarrow> length as > 0 | None \<Rightarrow> False)
      | None \<Rightarrow> False)"

definition absorbed :: "SyncService \<Rightarrow> SyncOptions \<Rightarrow> database \<Rightarrow> nat \<Rightarrow> bool" where
  "absorbed this options d uid =
     (case es_fetchEmail (emailSearcher this) uid of
        Inl e \<Rightarrow> True
      | Inr rawEmail \<Rightarrow>
          (case raw_messageId rawEmail of
             Some m \<Rightarrow> select_by_message_id d m \<noteq> None
           | None \<Rightarrow> False)
          \<or> filtered_out options rawEmail)"

text \<open>The fetched message carries a (non-empty) Message-ID, if the fetch succeeds.\<close>

definition has_message_id :: "SyncService \<Rightarrow> nat \<Rightarrow> bool" where
  "has_message_id this uid =
     (case es_fetchEmail (emailSearcher this) uid of
        Inl e \<Rightarrow> True
      | Inr rawEmail \<Rightarrow> or_null (raw_messageId rawEmail) \<noteq> None)"

text \<open>The UIDs whose fetch fails or succeeds.\<close>

definition fetch_failures :: "SyncService \<Rightarrow> nat list \<Rightarrow> nat" where
  "fetch_failures this uids =
     length (filter (\<lambda>uid. isl (es_fetchEmail (emailSearcher this) uid)) uids)"

definition fetch_successes :: "SyncService \<Rightarrow> nat list \<Rightarrow> nat" where
  "fetch_successes this uids =
     length (filter (\<lambda>uid. \<not> isl (es_fetchEmail (emailSearcher this) uid)) uids)"

text \<open>A mailbox where a search returns the UIDs 7 and 8, the fetch of UID 7 returns
  the given message and the fetch of UID 8 fails; a sync service over it that
  dispatches to the two listeners above; and a world with an empty store at
  time 1000.\<close>

definition sample_options :: SyncOptions where
  "sample_options =
     \<lparr>so_folder = None, so_since = Some 0, so_before = None, so_limit = None,
      so_markAsRead = None, so_from = None, so_to = None, so_subject = None,
      so_hasAttachments = None, so_unreadOnly = None, so_starredOnly = None,
      so_searchText = None, so_excludeFolders = None, so_sizeMin = None, so_sizeMax = None\<rparr>"

definition sample_raw :: RawEmail where
  "sample_raw =
     \<lparr>raw_messageId = Some ''<a@x>'', raw_threadId = None, raw_references = None,
      raw_inReplyTo = None, raw_date = Some 1, raw_subject = Some ''Weekly news'',
      raw_from_text = Some ''news@noreply.site'', raw_replyTo_text = None,
      raw_text = Some ''hello'', raw_html = None, raw_attachments = Some [],
      raw_headers_json = ''{}'',
      raw_to = Some (OneEntry (WithValue [\<lparr>addr_address = Some ''me@x'', addr_name = None\<rparr>])),
      raw_cc = None, raw_bcc = None\<rparr>"

definition sample_service :: "RawEmail \<Rightarrow> SyncService" where
  "sample_service rawEmail =
     \<lparr>emailSearcher =
        \<lparr>es_connect = True, es_open = (\<lambda>fld. True), es_searchEmails = (\<lambda>criteria. Inr [7, 8]),
         es_fetchEmail = (\<lambda>uid. if uid = 7 then Inr rawEmail else Inl (FetchFailed uid))\<rparr>,
      listenersManager = Some scenario6_manager,
      toLowerCase = (\<lambda>s. s),
      split_and_match = (\<lambda>s. [(s, None)])\<rparr>"

definition empty_world :: world where
  "empty_world = sample_world\<lparr>db := empty_db, clock := 1000\<rparr>"

text \<open>The sample message without a Message-ID header, and with a body of 300
  characters.\<close>

definition raw_without_id :: RawEmail where
  "raw_without_id = sample_raw\<lparr>raw_messageId := None\<rparr>"

definition long_raw :: RawEmail where
  "long_raw = sample_raw\<lparr>raw_text := Some (replicate 300 CHR ''a'')\<rparr>"

text \<open>The store after a second message was inserted at time 2.\<close>

definition two_db :: database where
  "two_db = (case insertEmail 2 (sample_record\<lparr>e_message_id := ''<b@x>'', e_imap_uid := Some 8\<rparr>)
                    [] [] sample_db of
               Inr (i, d) \<Rightarrow> d | Inl e \<Rightarrow> sample_db)"

text \<open>The rows a step of the loop adds to \<open>emails\<close>: one for a message it counts as
  synced, none otherwise; the snippets of the rows before are kept.\<close>

definition sync_rows :: "SyncStats \<Rightarrow> world \<Rightarrow> SyncStats \<Rightarrow> world \<Rightarrow> bool" where
  "sync_rows stats w stats' w' \<longleftrightarrow>
     (\<exists>new. map snippet (emails (db w')) = map snippet (emails (db w)) @ new
          \<and> list_all snippet_ok new
          \<and> synced stats' = synced stats + length new)"

section \<open>Shared lemmas\<close>

lemma fold_trigger_fts_update_emails [simp]:
  "emails (fold trigger_fts_update rs d) = emails d"
  by (induction rs arbitrary: d) (simp_all add: trigger_fts_update_def)

lemma fold_trigger_fts_update_attachments [simp]:
  "attachments (fold trigger_fts_update rs d) = attachments d"
  by (induction rs arbitrary: d) (simp_all add: trigger_fts_update_def)

lemma fold_trigger_fts_update_recipients [simp]:
  "recipients (fold trigger_fts_update rs d) = recipients d"
  by (induction rs arbitrary: d) (simp_all add: trigger_fts_update_def)

lemma fold_trigger_fts_update_next [simp]:
  "next_email_id (fold trigger_fts_update rs d) = next_email_id d"
  by (induction rs arbitrary: d) (simp_all add: trigger_fts_update_def)

lemma emails_updateEmailFlags:
  "emails (updateEmailFlags now m u d) =
     (if u = no_updates then emails d
      else map (\<lambda>r. if message_id r = m then set_clauses now u r else r) (emails d))"
  by (cases u) (auto simp: updateEmailFlags_def no_updates_def Let_def)

lemma resolve_email_cases:
  "resolve_email this emailId w =
     (case databaseManager this (db w) emailId of
        None \<Rightarrow> Inl (EmailNotFound emailId)
      | Some email \<Rightarrow>
          if imapUid email = None \<or> imapUid email = Some 0
          then Inl (EmailMissingImapUid emailId)
          else Inr (email, the (imapUid email)))"
  by (auto simp: resolve_email_def split: option.splits)

lemma remote_then_local_accept:
  "imapManager this (imap_log w) rq \<Longrightarrow>
   remote_then_local this rq emailId updates w =
     (Inr (), (case updates of
                 None \<Rightarrow> w\<lparr>imap_log := imap_log w @ [rq]\<rparr>
               | Some u \<Rightarrow> w\<lparr>imap_log := imap_log w @ [rq],
                             db := updateEmailFlags (clock w) emailId u (db w)\<rparr>))"
  by (simp add: remote_then_local_def imap_await_def split: option.splits)

lemma remote_then_local_reject:
  "\<not> imapManager this (imap_log w) rq \<Longrightarrow>
   remote_then_local this rq emailId updates w =
     (Inl (ImapRejected rq), w\<lparr>imap_log := imap_log w @ [rq]\<rparr>)"
  by (simp add: remote_then_local_def imap_await_def)

lemma remote_then_local_props:
  assumes "remote_then_local this rq emailId updates w = (r, w')"
  shows "imap_log w' = imap_log w @ [rq]"
    and "console w' = console w" and "fetched w' = fetched w" and "clock w' = clock w"
    and "notifications w' = notifications w"
    and "r = (if imapManager this (imap_log w) rq then Inr () else Inl (ImapRejected rq))"
    and "db w' = (if imapManager this (imap_log w) rq
                  then (case updates of None \<Rightarrow> db w
                        | Some u \<Rightarrow> updateEmailFlags (clock w) emailId u (db w))
                  else db w)"
  using assms
  by (cases "imapManager this (imap_log w) rq";
      auto simp: remote_then_local_accept remote_then_local_reject split: option.splits)+

text \<open>What an email method does, in one equation.\<close>

lemma email_method_unfold:
  assumes "target_email c = Some emailId"
  shows "\<exists>rqf updf. \<forall>w.
           createContext this cfg c w =
             (case resolve_email this emailId w of
                Inl e \<Rightarrow> (Inl e, w)
              | Inr (email, uid) \<Rightarrow>
                  remote_then_local this (rqf email uid) emailId (updf email) w)"
proof (cases c)
  case (archiveEmail x) with assms show ?thesis
    by (intro exI[of _ "\<lambda>email uid. Imap_archiveEmail uid (folder' email)"]
              exI[of _ "\<lambda>email. Some (no_updates\<lparr>upd_folder := Some ''[Gmail]/All Mail''\<rparr>)"]) simp
next
  case (starEmail x) with assms show ?thesis
    by (intro exI[of _ "\<lambda>email uid. Imap_starEmail uid (folder' email)"]
              exI[of _ "\<lambda>email. Some (no_updates\<lparr>upd_isStarred := Some True\<rparr>)"]) simp
next
  case (unstarEmail x) with assms show ?thesis
    by (intro exI[of _ "\<lambda>email uid. Imap_unstarEmail uid (folder' email)"]
              exI[of _ "\<lambda>email. Some (no_updates\<lparr>upd_isStarred := Some False\<rparr>)"]) simp
next
  case (markAsRead x) with assms show ?thesis
    by (intro exI[of _ "\<lambda>email uid. Imap_markAsRead uid (folder' email)"]
              exI[of _ "\<lambda>email. Some (no_updates\<lparr>upd_isRead := Some True\<rparr>)"]) simp
next
  case (markAsUnread x) with assms show ?thesis
    by (intro exI[of _ "\<lambda>email uid. Imap_markAsUnread uid (folder' email)"]
              exI[of _ "\<lambda>email. Some (no_updates\<lparr>upd_isRead := Some False\<rparr>)"]) simp
next
  case (addLabel x label) with assms show ?thesis
    by (intro exI[of _ "\<lambda>email uid. Imap_addLabel uid label (folder' email)"]
              exI[of _ "\<lambda>email. if label \<in> set (case labels' email of Some ls \<Rightarrow> ls | None \<Rightarrow> [])
                               then None
                               else Some (no_updates\<lparr>upd_labels :=
                                      Some ((case labels' email of Some ls \<Rightarrow> ls | None \<Rightarrow> []) @ [label])\<rparr>)"])
       (auto simp: Let_def split: sum.splits)
next
  case (removeLabel x label) with assms show ?thesis
    by (intro exI[of _ "\<lambda>email uid. Imap_removeLabel uid label (folder' email)"]
              exI[of _ "\<lambda>email. Some (no_updates\<lparr>upd_labels :=
                           Some (filter (\<lambda>l. l \<noteq> label)
                                   (case labels' email of Some ls \<Rightarrow> ls | None \<Rightarrow> []))\<rparr>)"])
       (auto simp: Let_def split: sum.splits)
qed (use assms in simp_all)

lemma store_frame_refl [simp]: "store_frame d d"
  by (simp add: store_frame_def)

lemma store_frame_trans: "store_frame d d' \<Longrightarrow> store_frame d' d'' \<Longrightarrow> store_frame d d''"
  by (simp add: store_frame_def)

lemma store_frame_updateEmailFlags [simp]: "store_frame d (updateEmailFlags now m u d)"
  by (simp add: store_frame_def emails_updateEmailFlags set_clauses_def)

text \<open>The effect of any context method on the world.\<close>

lemma createContext_frame:
  assumes "createContext this cfg c w = (r, w')"
  shows "console w' = console w \<and> fetched w' = fetched w \<and> clock w' = clock w
         \<and> store_frame (db w) (db w')"
proof (cases "target_email c")
  case None
  with assms show ?thesis by (cases c) (auto split: if_splits)
next
  case (Some emailId)
  have "\<exists>rq u. createContext this cfg c w =
          (case resolve_email this emailId w of
             Inl e \<Rightarrow> (Inl e, w)
           | Inr (email, uid) \<Rightarrow> remote_then_local this (rq email uid) emailId (u email) w)"
    using Some by (cases c) (auto simp: Let_def split: sum.splits)
  then obtain rq u where eq: "createContext this cfg c w =
          (case resolve_email this emailId w of
             Inl e \<Rightarrow> (Inl e, w)
           | Inr (email, uid) \<Rightarrow> remote_then_local this (rq email uid) emailId (u email) w)"
    by blast
  show ?thesis
  proof (cases "resolve_email this emailId w")
    case (Inl e)
    with eq assms show ?thesis by simp
  next
    case (Inr p)
    obtain email uid where "p = (email, uid)" by (cases p)
    with Inr eq assms
    have "remote_then_local this (rq email uid) emailId (u email) w = (r, w')" by simp
    from remote_then_local_props [OF this] show ?thesis
      by (auto split: option.splits)
  qed
qed

lemma run_handler_frame:
  "run_handler this cfg p w = (r, w') \<Longrightarrow>
     console w' = console w \<and> fetched w' = fetched w \<and> clock w' = clock w
     \<and> store_frame (db w) (db w')"
proof (induction p arbitrary: w r w')
  case Return then show ?case by simp
next
  case (Throw e) then show ?case by simp
next
  case (Await c k)
  obtain r1 w1 where c1: "createContext this cfg c w = (r1, w1)" by (cases "createContext this cfg c w")
  with Await.prems have "run_handler this cfg (k r1) w1 = (r, w')" by simp
  from Await.IH [OF _ this] createContext_frame [OF c1] show ?case
    by (auto intro: store_frame_trans)
qed

lemma invoke_listener_props:
  assumes "invoke_listener this data listener w = (r, w')"
  shows "r = Inr ()"
    and "fetched w' = fetched w" and "clock w' = clock w" and "store_frame (db w) (db w')"
    and "\<exists>line. console w' = console w @ [line]
           \<and> (line = ExecutedSuccessfully (cfg_id (config listener))
               \<or> (\<exists>e. line = HandlerFailed (cfg_id (config listener)) e))"
proof -
  obtain r1 w1 where h: "run_handler this (config listener) (handler listener data) w = (r1, w1)"
    by (cases "run_handler this (config listener) (handler listener data) w")
  note f = run_handler_frame [OF h]
  from assms h f show "r = Inr ()" "fetched w' = fetched w" "clock w' = clock w"
     "store_frame (db w) (db w')"
    by (auto simp: invoke_listener_def split: sum.splits)
  from assms h f show "\<exists>line. console w' = console w @ [line]
           \<and> (line = ExecutedSuccessfully (cfg_id (config listener))
               \<or> (\<exists>e. line = HandlerFailed (cfg_id (config listener)) e))"
    by (cases r1) (auto simp: invoke_listener_def)
qed

text \<open>A loop whose body never throws runs to the end of the list.\<close>

lemma for_each_total:
  assumes "\<And>x s. fst (body x s) = Inr ()"
  shows "for_each body xs s = (Inr (), fold (\<lambda>x s. snd (body x s)) xs s)"
proof (induction xs arbitrary: s)
  case Nil then show ?case by simp
next
  case (Cons x xs)
  from assms [of x s] obtain s' where "body x s = (Inr (), s')"
    by (cases "body x s") auto
  with Cons show ?case by simp
qed

lemma invoke_listener_fst [simp]: "fst (invoke_listener this data listener w) = Inr ()"
  using invoke_listener_props(1) [of this data listener w] by (cases "invoke_listener this data listener w") auto

lemma fold_invoke_props:
  "fetched (fold (\<lambda>l w. snd (invoke_listener this data l w)) ls w) = fetched w
   \<and> clock (fold (\<lambda>l w. snd (invoke_listener this data l w)) ls w) = clock w
   \<and> store_frame (db w) (db (fold (\<lambda>l w. snd (invoke_listener this data l w)) ls w))
   \<and> (\<exists>lines. console (fold (\<lambda>l w. snd (invoke_listener this data l w)) ls w) = console w @ lines
        \<and> list_all2 (\<lambda>line l. line = ExecutedSuccessfully (cfg_id (config l))
                               \<or> (\<exists>e. line = HandlerFailed (cfg_id (config l)) e)) lines ls)"
proof (induction ls arbitrary: w)
  case Nil then show ?case by simp
next
  case (Cons l ls)
  obtain r w1 where i: "invoke_listener this data l w = (r, w1)"
    by (cases "invoke_listener this data l w")
  note p = invoke_listener_props [OF i]
  from p(5) obtain line where line: "console w1 = console w @ [line]"
     "line = ExecutedSuccessfully (cfg_id (config l)) \<or> (\<exists>e. line = HandlerFailed (cfg_id (config l)) e)"
    by blast
  from Cons.IH [of w1] obtain lines where
    ih: "fetched (fold (\<lambda>l w. snd (invoke_listener this data l w)) ls w1) = fetched w1"
        "clock (fold (\<lambda>l w. snd (invoke_listener this data l w)) ls w1) = clock w1"
        "store_frame (db w1) (db (fold (\<lambda>l w. snd (invoke_listener this data l w)) ls w1))"
        "console (fold (\<lambda>l w. snd (invoke_listener this data l w)) ls w1) = console w1 @ lines"
        "list_all2 (\<lambda>line l. line = ExecutedSuccessfully (cfg_id (config l))
                               \<or> (\<exists>e. line = HandlerFailed (cfg_id (config l)) e)) lines ls"
    by blast
  have "console (fold (\<lambda>l w. snd (invoke_listener this data l w)) (l # ls) w) = console w @ (line # lines)"
    using i ih(4) line(1) by simp
  moreover have "list_all2 (\<lambda>line l. line = ExecutedSuccessfully (cfg_id (config l))
                               \<or> (\<exists>e. line = HandlerFailed (cfg_id (config l)) e)) (line # lines) (l # ls)"
    using ih(5) line(2) by simp
  ultimately show ?case using i ih(1,2,3) p(2,3,4)
    by (auto intro: store_frame_trans)
qed


lemma checkEvent_unfold:
  "checkEvent this event data w =
     (Inr (),
      if matchingListeners this event = [] then w
      else fold (\<lambda>listener w. snd (invoke_listener this data listener w))
             (matchingListeners this event)
             (w\<lparr>console := console w @
                  [Triggering (length (matchingListeners this event)) event]\<rparr>))"
  by (simp add: checkEvent_def for_each_total)

lemma checkEvent_frame:
  assumes "checkEvent this event data w = (r, w')"
  shows "r = Inr ()" and "fetched w' = fetched w" and "clock w' = clock w"
    and "store_frame (db w) (db w')"
proof -
  let ?w0 = "w\<lparr>console := console w @ [Triggering (length (matchingListeners this event)) event]\<rparr>"
  from checkEvent_unfold [of this event data w] assms
  have r: "r = Inr ()" and w': "w' = (if matchingListeners this event = [] then w
        else fold (\<lambda>listener w. snd (invoke_listener this data listener w))
               (matchingListeners this event) ?w0)"
    by auto
  show "r = Inr ()" by fact
  from fold_invoke_props [of this data "matchingListeners this event" ?w0] w'
  show "fetched w' = fetched w" "clock w' = clock w" "store_frame (db w) (db w')"
    by (auto split: if_splits)
qed

text \<open>
  The manager as \<open>server.ts\<close> constructs it, with the \<open>DatabaseManager\<close> of
  \<open>database-manager.ts\<close>: the record built by \<open>mapRowToEmailRecord\<close> never has an
  \<open>imapUid\<close>.
\<close>

lemma getEmailByMessageId_no_uid:
  "getEmailByMessageId d m = Some email \<Longrightarrow> imapUid email = None"
  by (auto simp: getEmailByMessageId_def mapRowToEmailRecord_def)

lemma resolve_email_wired:
  assumes "databaseManager this = getEmailByMessageId"
  shows "resolve_email this emailId w =
          Inl (if select_by_message_id (db w) emailId = None
               then EmailNotFound emailId else EmailMissingImapUid emailId)"
  using assms getEmailByMessageId_no_uid [of "db w" emailId]
  by (auto simp: resolve_email_cases getEmailByMessageId_def split: option.splits)

lemma map_of_map_set: "map_of (map_set k v kvs) x = (if x = k then Some v else map_of kvs x)"
  by (induction kvs) auto

lemma keys_map_set: "fst ` set (map_set k v kvs) = insert k (fst ` set kvs)"
  by (induction kvs) (force split: if_splits)+

lemma distinct_map_set: "distinct (map fst kvs) \<Longrightarrow> distinct (map fst (map_set k v kvs))"
  by (induction kvs) (auto simp: keys_map_set)

lemma map_set_new: "k \<notin> fst ` set kvs \<Longrightarrow> map_set k v kvs = kvs @ [(k, v)]"
  by (induction kvs) auto

lemma loadListener_registration:
  "(if loadable file then loadListener dir file this else this) =
     (case registration dir file of
        None \<Rightarrow> this
      | Some (k, v) \<Rightarrow> this\<lparr>listeners := map_set k v (listeners this)\<rparr>)"
  by (auto simp: loadable_def loadListener_def registration_def split: sum.splits option.splits)

lemma fold_registration:
  "fold (\<lambda>file m. case registration dir file of
                      None \<Rightarrow> m
                    | Some (k, v) \<Rightarrow> m\<lparr>listeners := map_set k v (listeners m)\<rparr>) files this =
     this\<lparr>listeners := fold (\<lambda>(k, v). map_set k v) (List.map_filter (registration dir) files)
                          (listeners this)\<rparr>"
  by (induction files arbitrary: this) (auto simp: List.map_filter_simps split: option.splits)

lemma fold_loadListener:
  "fold (\<lambda>file m. if loadable file then loadListener dir file m else m) files this =
     this\<lparr>listeners := fold (\<lambda>(k, v). map_set k v) (List.map_filter (registration dir) files)
                          (listeners this)\<rparr>"
  by (simp only: loadListener_registration fold_registration)

lemma fold_map_set_lookup:
  "map_of (fold (\<lambda>(k, v). map_set k v) rs acc) x =
     (case map_of (rev rs) x of Some y \<Rightarrow> Some y | None \<Rightarrow> map_of acc x)"
proof (induction rs arbitrary: acc)
  case Nil show ?case by simp
next
  case (Cons r rs)
  obtain k v where r: "r = (k, v)" by (cases r)
  show ?case
    by (simp add: r Cons.IH map_of_map_set map_add_def split: option.splits)
qed

lemma fold_map_set_map_of:
  "map_of (fold (\<lambda>(k, v). map_set k v) rs []) = map_of (rev rs)"
  by (rule ext) (simp add: fold_map_set_lookup split: option.splits)

lemma fold_map_set_keys:
  "fst ` set (fold (\<lambda>(k, v). map_set k v) rs acc) = fst ` set acc \<union> fst ` set rs"
proof (induction rs arbitrary: acc)
  case Nil show ?case by simp
next
  case (Cons r rs)
  obtain k v where r: "r = (k, v)" by (cases r)
  show ?case by (simp add: r Cons.IH keys_map_set)
qed

lemma fold_map_set_distinct:
  "distinct (map fst acc) \<Longrightarrow> distinct (map fst (fold (\<lambda>(k, v). map_set k v) rs acc))"
proof (induction rs arbitrary: acc)
  case Nil then show ?case by simp
next
  case (Cons r rs)
  obtain k v where r: "r = (k, v)" by (cases r)
  from Cons.prems have "distinct (map fst (map_set k v acc))" by (rule distinct_map_set)
  from Cons.IH [OF this] show ?case by (simp add: r)
qed

lemma fold_map_set_fresh:
  "distinct (map fst (acc @ rs)) \<Longrightarrow> fold (\<lambda>(k, v). map_set k v) rs acc = acc @ rs"
proof (induction rs arbitrary: acc)
  case Nil show ?case by simp
next
  case (Cons r rs)
  obtain k v where r: "r = (k, v)" by (cases r)
  from Cons.prems have new: "k \<notin> fst ` set acc"
    and d: "distinct (map fst ((acc @ [(k, v)]) @ rs))"
    by (auto simp: r)
  from Cons.IH [OF d] new show ?case by (simp add: r map_set_new)
qed


lemma or_null_take: "or_null (map_option (substring0 200) s) = Some x \<Longrightarrow> length x \<le> 200"
  by (auto simp: or_null_def substring0_def split: option.splits if_splits)

text \<open>The statement of \<open>upsertEmail\<close> is refused; those of the other operations are not.\<close>

lemma prepare_upsert: "prepare upsert_columns = Some (NoSuchColumn ''to_addresses'')"
  by code_simp

lemma prepare_others:
  "prepare select_columns = None"
  "prepare update_flags_columns = None"
  "prepare insert_columns = None"
  by code_simp+

lemma upsertEmail_refused:
  "upsertEmail now email atts d = (Inl (NoSuchColumn ''to_addresses''), d)"
  by (simp add: upsertEmail_def prepare_upsert)

lemma select_by_message_id_iff:
  "select_by_message_id d m \<noteq> None \<longleftrightarrow> m \<in> set (map message_id (emails d))"
  by (auto simp: select_by_message_id_def find_None_iff)

lemma select_Some_iff:
  "(\<exists>y. select_by_message_id d m = Some y) \<longleftrightarrow> m \<in> message_id ` set (emails d)"
  using select_by_message_id_iff [of d m] by auto

lemma store_frame_select:
  "store_frame d d' \<Longrightarrow> select_by_message_id d' m \<noteq> None \<longleftrightarrow> select_by_message_id d m \<noteq> None"
  by (simp only: select_by_message_id_iff store_frame_def)

lemma insertEmail_fails_iff:
  "(\<exists>e. insertEmail now email rcps atts d = Inl e) \<longleftrightarrow>
     select_by_message_id d (e_message_id email) \<noteq> None"
  by (auto simp: insertEmail_def Let_def split: option.splits)

lemma insertEmail_rows:
  assumes "insertEmail now email rcps atts d = Inr (i, d')"
  shows "map message_id (emails d') = map message_id (emails d) @ [e_message_id email]"
    and "map snippet (emails d') = map snippet (emails d) @
           [case or_null (e_snippet email) of
              Some s \<Rightarrow> Some s
            | None \<Rightarrow> or_null (map_option (substring0 200) (e_body_text email))]"
  using assms
  by (auto simp: insertEmail_def Let_def trigger_fts_insert_def split: option.splits)

lemma emailRecord_of_fields:
  "e_message_id (emailRecord_of this options uid rawEmail t) =
     (case or_null (raw_messageId rawEmail) of
        Some m \<Rightarrow> m | None \<Rightarrow> show_nat uid @ ''-'' @ show_nat t)"
  "e_snippet (emailRecord_of this options uid rawEmail t) =
     map_option (substring0 200) (raw_text rawEmail)"
  "e_body_text (emailRecord_of this options uid rawEmail t) = raw_text rawEmail"
  by (simp_all add: emailRecord_of_def Let_def)

lemma absorbed_Inr:
  "es_fetchEmail (emailSearcher this) uid = Inr rawEmail \<Longrightarrow>
   absorbed this options d uid \<longleftrightarrow>
     (case raw_messageId rawEmail of
        Some m \<Rightarrow> select_by_message_id d m \<noteq> None | None \<Rightarrow> False)
     \<or> filtered_out options rawEmail"
  by (simp add: absorbed_def)

lemma absorbed_Inl:
  "es_fetchEmail (emailSearcher this) uid = Inl e \<Longrightarrow> absorbed this options d uid"
  by (simp add: absorbed_def)

text \<open>The four ways through the body of the loop.\<close>

lemma process_uid_cases:
  obtains
    (fetch_error) e where
      "es_fetchEmail (emailSearcher this) uid = Inl e"
      "process_uid this options uid (stats, w) =
         (Inr (), stats\<lparr>errors := errors stats + 1\<rparr>, w\<lparr>fetched := fetched w @ [uid]\<rparr>)"
  | (skip) rawEmail where
      "es_fetchEmail (emailSearcher this) uid = Inr rawEmail"
      "absorbed this options (db w) uid"
      "process_uid this options uid (stats, w) =
         (Inr (), stats\<lparr>skipped := skipped stats + 1\<rparr>, w\<lparr>fetched := fetched w @ [uid]\<rparr>)"
  | (insert_error) rawEmail e where
      "es_fetchEmail (emailSearcher this) uid = Inr rawEmail"
      "\<not> absorbed this options (db w) uid"
      "insertEmail (clock w) (emailRecord_of this options uid rawEmail (clock w))
         (extractRecipients this rawEmail 0) (extractAttachments rawEmail 0) (db w) = Inl e"
      "process_uid this options uid (stats, w) =
         (Inr (), stats\<lparr>errors := errors stats + 1\<rparr>, w\<lparr>fetched := fetched w @ [uid]\<rparr>)"
  | (synced) rawEmail i d w2 where
      "es_fetchEmail (emailSearcher this) uid = Inr rawEmail"
      "\<not> absorbed this options (db w) uid"
      "insertEmail (clock w) (emailRecord_of this options uid rawEmail (clock w))
         (extractRecipients this rawEmail 0) (extractAttachments rawEmail 0) (db w) = Inr (i, d)"
      "store_frame d (db w2)" "fetched w2 = fetched w @ [uid]" "clock w2 = clock w"
      "process_uid this options uid (stats, w) =
         (Inr (), stats\<lparr>synced := synced stats + 1\<rparr>, w2)"
proof (cases "es_fetchEmail (emailSearcher this) uid")
  case (Inl e)
  then have "process_uid this options uid (stats, w) =
         (Inr (), stats\<lparr>errors := errors stats + 1\<rparr>, w\<lparr>fetched := fetched w @ [uid]\<rparr>)"
    by (simp add: process_uid_def try_uid_def Let_def)
  with Inl show ?thesis by (rule fetch_error)
next
  case (Inr rawEmail)
  let ?w = "w\<lparr>fetched := fetched w @ [uid]\<rparr>"
  show ?thesis
  proof (cases "absorbed this options (db w) uid")
    case True
    with Inr have "process_uid this options uid (stats, w) =
         (Inr (), stats\<lparr>skipped := skipped stats + 1\<rparr>, ?w)"
      by (auto simp: process_uid_def try_uid_def Let_def absorbed_Inr filtered_out_def
               split: option.splits)
    with Inr True show ?thesis by (rule skip)
  next
    case False
    let ?ins = "insertEmail (clock w) (emailRecord_of this options uid rawEmail (clock w))
         (extractRecipients this rawEmail 0) (extractAttachments rawEmail 0) (db w)"
    from False Inr have no: "\<not> (case raw_messageId rawEmail of
        Some m \<Rightarrow> select_by_message_id (db w) m \<noteq> None | None \<Rightarrow> False)"
      "\<not> (case so_hasAttachments options of
              Some b \<Rightarrow> b \<noteq> (case raw_attachments rawEmail of
                                   Some as \<Rightarrow> length as > 0 | None \<Rightarrow> False)
            | None \<Rightarrow> False)"
      by (simp_all add: absorbed_Inr filtered_out_def)
    have t: "try_uid this options uid (stats, w) =
       (case ?ins of
          Inl e \<Rightarrow> (Inl e, stats, ?w)
        | Inr (emailId, d) \<Rightarrow>
            (case listenersManager this of
               None \<Rightarrow> (Inr (), stats\<lparr>synced := synced stats + 1\<rparr>, ?w\<lparr>db := d\<rparr>)
             | Some lm \<Rightarrow>
                 (case checkEvent lm email_received
                         (emailForListener_of (emailRecord_of this options uid rawEmail (clock w))
                            (extractRecipients this rawEmail 0)) (?w\<lparr>db := d\<rparr>) of
                    (Inl e, w2) \<Rightarrow> (Inl e, stats\<lparr>synced := synced stats + 1\<rparr>, w2)
                  | (Inr _, w2) \<Rightarrow> (Inr (), stats\<lparr>synced := synced stats + 1\<rparr>, w2))))"
      using Inr no
      by (auto simp: try_uid_def Let_def split: option.splits sum.splits prod.splits)
    show ?thesis
    proof (cases ?ins)
      case (Inl e)
      with t have "process_uid this options uid (stats, w) =
         (Inr (), stats\<lparr>errors := errors stats + 1\<rparr>, ?w)"
        by (simp add: process_uid_def)
      with Inr False Inl show ?thesis by (rule insert_error)
    next
      case ins: (Inr p)
      obtain i d where p: "p = (i, d)" by (cases p)
      show ?thesis
      proof (cases "listenersManager this")
        case None
        with t ins p have "process_uid this options uid (stats, w) =
           (Inr (), stats\<lparr>synced := synced stats + 1\<rparr>, ?w\<lparr>db := d\<rparr>)"
          by (simp add: process_uid_def)
        with Inr False ins p show ?thesis
          by (intro synced [of rawEmail i d "?w\<lparr>db := d\<rparr>"]) simp_all
      next
        case (Some lm)
        obtain r w2 where ce: "checkEvent lm email_received
                         (emailForListener_of (emailRecord_of this options uid rawEmail (clock w))
                            (extractRecipients this rawEmail 0)) (?w\<lparr>db := d\<rparr>) = (r, w2)"
          by (cases "checkEvent lm email_received
                         (emailForListener_of (emailRecord_of this options uid rawEmail (clock w))
                            (extractRecipients this rawEmail 0)) (?w\<lparr>db := d\<rparr>)")
        note f = checkEvent_frame [OF ce]
        from t ins p Some ce f(1) have "process_uid this options uid (stats, w) =
           (Inr (), stats\<lparr>synced := synced stats + 1\<rparr>, w2)"
          by (simp add: process_uid_def)
        with Inr False ins p f show ?thesis
          by (intro synced [of rawEmail i d w2]) simp_all
      qed
    qed
  qed
qed
lemma sync_snippet_bounded:
  "case (case or_null (e_snippet (emailRecord_of this options uid rawEmail t)) of
           Some s \<Rightarrow> Some s
         | None \<Rightarrow> or_null (map_option (substring0 200)
                            (e_body_text (emailRecord_of this options uid rawEmail t)))) of
     None \<Rightarrow> True | Some x \<Rightarrow> length x \<le> 200"
  by (auto simp: emailRecord_of_fields dest: or_null_take split: option.splits)

lemma sync_rows_refl: "sync_rows stats w stats w"
  by (simp add: sync_rows_def)

lemma sync_rows_trans:
  "sync_rows stats w stats1 w1 \<Longrightarrow> sync_rows stats1 w1 stats2 w2 \<Longrightarrow> sync_rows stats w stats2 w2"
  unfolding sync_rows_def
proof (elim exE conjE)
  fix new new'
  assume a: "map snippet (emails (db w1)) = map snippet (emails (db w)) @ new"
    "list_all snippet_ok new" "synced stats1 = synced stats + length new"
    and b: "map snippet (emails (db w2)) = map snippet (emails (db w1)) @ new'"
    "list_all snippet_ok new'" "synced stats2 = synced stats1 + length new'"
  from a b have "map snippet (emails (db w2)) = map snippet (emails (db w)) @ (new @ new')
      \<and> list_all snippet_ok (new @ new')
      \<and> synced stats2 = synced stats + length (new @ new')"
    by simp
  then show "\<exists>new. map snippet (emails (db w2)) = map snippet (emails (db w)) @ new
          \<and> list_all snippet_ok new \<and> synced stats2 = synced stats + length new" ..
qed

lemma process_uid_props:
  assumes "process_uid this options uid (stats, w) = (r, stats', w')"
  shows "r = Inr ()" and "fetched w' = fetched w @ [uid]" and "clock w' = clock w"
    and "synced stats' + skipped stats' + errors stats'
           = synced stats + skipped stats + errors stats + 1"
    and "set (map message_id (emails (db w))) \<subseteq> set (map message_id (emails (db w')))"
    and "sync_rows stats w stats' w'"
proof -
  have "r = Inr () \<and> fetched w' = fetched w @ [uid] \<and> clock w' = clock w
      \<and> synced stats' + skipped stats' + errors stats'
           = synced stats + skipped stats + errors stats + 1
      \<and> set (map message_id (emails (db w))) \<subseteq> set (map message_id (emails (db w')))
      \<and> sync_rows stats w stats' w'"
  proof (cases rule: process_uid_cases [of this uid options stats w])
    case (fetch_error e)
    with assms show ?thesis by (auto simp: sync_rows_def)
  next
    case (skip rawEmail)
    with assms show ?thesis by (auto simp: sync_rows_def)
  next
    case (insert_error rawEmail e)
    with assms show ?thesis by (auto simp: sync_rows_def)
  next
    case (synced rawEmail i d w2)
    note rows = insertEmail_rows [OF synced(3)]
    from synced(4) have f: "map message_id (emails (db w2)) = map message_id (emails d)"
      "map snippet (emails (db w2)) = map snippet (emails d)"
      by (simp_all add: store_frame_def)
    have "sync_rows stats w (stats\<lparr>synced := synced stats + 1\<rparr>) w2"
      using sync_snippet_bounded [of this options uid rawEmail "clock w"]
      by (simp add: sync_rows_def snippet_ok_def f rows)
    moreover have "set (map message_id (emails (db w))) \<subseteq> set (map message_id (emails (db w2)))"
      by (simp only: f rows) auto
    ultimately show ?thesis using synced(5,6,7) assms by auto
  qed
  then show "r = Inr ()" "fetched w' = fetched w @ [uid]" "clock w' = clock w"
    "synced stats' + skipped stats' + errors stats'
           = synced stats + skipped stats + errors stats + 1"
    "set (map message_id (emails (db w))) \<subseteq> set (map message_id (emails (db w')))"
    "sync_rows stats w stats' w'"
    by blast+
qed

lemma absorbed_mono:
  assumes "set (map message_id (emails d)) \<subseteq> set (map message_id (emails d'))"
      and "absorbed this options d uid"
  shows "absorbed this options d' uid"
  using assms
  by (auto simp: absorbed_def select_Some_iff split: sum.splits option.splits)

lemma process_uid_absorbed:
  assumes "absorbed this options (db w) uid"
  shows "process_uid this options uid (stats, w) =
           (Inr (),
            (if isl (es_fetchEmail (emailSearcher this) uid)
             then stats\<lparr>errors := errors stats + 1\<rparr>
             else stats\<lparr>skipped := skipped stats + 1\<rparr>),
            w\<lparr>fetched := fetched w @ [uid]\<rparr>)"
proof (cases rule: process_uid_cases [of this uid options stats w])
  case (fetch_error e) then show ?thesis by simp
next
  case (skip rawEmail) then show ?thesis by simp
next
  case (insert_error rawEmail e) with assms show ?thesis by simp
next
  case (synced rawEmail i d w2) with assms show ?thesis by simp
qed

lemma process_uid_absorbs:
  assumes "has_message_id this uid"
      and "process_uid this options uid (stats, w) = (r, stats', w')"
  shows "absorbed this options (db w') uid
       \<and> errors stats' = errors stats + (if isl (es_fetchEmail (emailSearcher this) uid) then 1 else 0)
       \<and> synced stats' + skipped stats'
           = synced stats + skipped stats
             + (if isl (es_fetchEmail (emailSearcher this) uid) then 0 else 1)"
proof (cases rule: process_uid_cases [of this uid options stats w])
  case (fetch_error e)
  with assms show ?thesis by (auto simp: absorbed_Inl)
next
  case (skip rawEmail)
  with assms show ?thesis by auto
next
  case (insert_error rawEmail e)
  from assms(1) insert_error(1) obtain m where m: "raw_messageId rawEmail = Some m" "m \<noteq> []"
    by (auto simp: has_message_id_def or_null_def split: option.splits if_splits)
  then have "e_message_id (emailRecord_of this options uid rawEmail (clock w)) = m"
    by (simp add: emailRecord_of_fields or_null_def)
  with insert_error(3) have "select_by_message_id (db w) m \<noteq> None"
    using insertEmail_fails_iff
            [of "clock w" "emailRecord_of this options uid rawEmail (clock w)"
                "extractRecipients this rawEmail 0" "extractAttachments rawEmail 0" "db w"]
    by auto
  with m insert_error(1,2) show ?thesis by (simp add: absorbed_Inr)
next
  case (synced rawEmail i d w2)
  from assms(1) synced(1) obtain m where m: "raw_messageId rawEmail = Some m" "m \<noteq> []"
    by (auto simp: has_message_id_def or_null_def split: option.splits if_splits)
  then have "e_message_id (emailRecord_of this options uid rawEmail (clock w)) = m"
    by (simp add: emailRecord_of_fields or_null_def)
  with insertEmail_rows(1) [OF synced(3)] have "m \<in> set (map message_id (emails d))" by simp
  with synced(4) have "select_by_message_id (db w2) m \<noteq> None"
    by (simp only: select_by_message_id_iff store_frame_def)
  with m synced(1) have "absorbed this options (db w2) uid" by (simp add: absorbed_Inr)
  with synced(1,7) assms(2) show ?thesis by auto
qed

text \<open>The loop of \<open>syncEmails\<close>.\<close>

lemma sync_loop_props:
  assumes "for_each (process_uid this options) uids (stats, w) = (r, stats', w')"
  shows "r = Inr () \<and> fetched w' = fetched w @ uids \<and> clock w' = clock w
       \<and> synced stats' + skipped stats' + errors stats'
           = synced stats + skipped stats + errors stats + length uids
       \<and> set (map message_id (emails (db w))) \<subseteq> set (map message_id (emails (db w')))
       \<and> sync_rows stats w stats' w'"
  using assms
proof (induction uids arbitrary: stats w)
  case Nil then show ?case by (simp add: sync_rows_refl)
next
  case (Cons uid uids)
  obtain r1 stats1 w1 where s: "process_uid this options uid (stats, w) = (r1, stats1, w1)"
    by (cases "process_uid this options uid (stats, w)")
  note p = process_uid_props [OF s]
  from Cons.prems s p(1)
  have "for_each (process_uid this options) uids (stats1, w1) = (r, stats', w')" by simp
  note ih = Cons.IH [OF this]
  from ih p(6) have "sync_rows stats w stats' w'" by (blast intro: sync_rows_trans)
  moreover from ih p(5)
  have "set (map message_id (emails (db w))) \<subseteq> set (map message_id (emails (db w')))"
    by blast
  moreover from ih p(1,2,3,4)
  have "r = Inr () \<and> fetched w' = fetched w @ uid # uids \<and> clock w' = clock w
       \<and> synced stats' + skipped stats' + errors stats'
           = synced stats + skipped stats + errors stats + length (uid # uids)"
    by simp
  ultimately show ?case by blast
qed

lemma sync_loop_absorbs:
  assumes "\<forall>uid \<in> set uids. has_message_id this uid"
      and "for_each (process_uid this options) uids (stats, w) = (r, stats', w')"
  shows "(\<forall>uid \<in> set uids. absorbed this options (db w') uid)
       \<and> errors stats' = errors stats + fetch_failures this uids
       \<and> synced stats' + skipped stats' = synced stats + skipped stats + fetch_successes this uids"
  using assms
proof (induction uids arbitrary: stats w)
  case Nil then show ?case by (simp add: fetch_failures_def fetch_successes_def)
next
  case (Cons uid uids)
  obtain r1 stats1 w1 where s: "process_uid this options uid (stats, w) = (r1, stats1, w1)"
    by (cases "process_uid this options uid (stats, w)")
  note p = process_uid_props [OF s]
  from Cons.prems(1) have h: "has_message_id this uid" "\<forall>uid \<in> set uids. has_message_id this uid"
    by simp_all
  note a = process_uid_absorbs [OF h(1) s]
  from Cons.prems(2) s p(1)
  have rest: "for_each (process_uid this options) uids (stats1, w1) = (r, stats', w')" by simp
  note ih = Cons.IH [OF h(2) rest]
  from sync_loop_props [OF rest]
  have "set (map message_id (emails (db w1))) \<subseteq> set (map message_id (emails (db w')))" by blast
  with a have "absorbed this options (db w') uid" by (blast intro: absorbed_mono)
  with ih a show ?case by (auto simp: fetch_failures_def fetch_successes_def)
qed

lemma sync_loop_absorbed:
  assumes "\<forall>uid \<in> set uids. absorbed this options (db w) uid"
  shows "for_each (process_uid this options) uids (stats, w) =
           (Inr (),
            stats\<lparr>skipped := skipped stats + fetch_successes this uids,
                  errors := errors stats + fetch_failures this uids\<rparr>,
            w\<lparr>fetched := fetched w @ uids\<rparr>)"
  using assms
proof (induction uids arbitrary: stats w)
  case Nil then show ?case by (simp add: fetch_failures_def fetch_successes_def)
next
  case (Cons uid uids)
  from Cons.prems have a: "absorbed this options (db w) uid"
    and rest: "\<forall>u \<in> set uids. absorbed this options (db (w\<lparr>fetched := fetched w @ [uid]\<rparr>)) u"
    by simp_all
  show ?case
    by (simp add: process_uid_absorbed [OF a] Cons.IH [OF rest]
          fetch_failures_def fetch_successes_def)
qed

lemma syncEmails_cases:
  assumes "syncEmails this options w = (r, w')"
  shows "(isl r \<and> w' = w)
       \<or> (\<exists>uids stats.
             es_connect (emailSearcher this)
           \<and> es_open (emailSearcher this)
                (case so_folder options of
                   Some f \<Rightarrow> if f = [] \<or> f = ''INBOX'' then ''INBOX'' else f
                 | None \<Rightarrow> ''INBOX'')
           \<and> es_searchEmails (emailSearcher this) (sync_criteria options (clock w)) = Inr uids
           \<and> for_each (process_uid this options) (uidsToProcess options uids)
                (\<lparr>synced = 0, skipped = 0, errors = 0\<rparr>, w) = (Inr (), stats, w')
           \<and> r = Inr stats)"
proof (cases "es_searchEmails (emailSearcher this) (sync_criteria options (clock w))")
  case (Inl e)
  with assms show ?thesis by (auto simp: syncEmails_def Let_def split: if_splits)
next
  case (Inr uids)
  obtain r1 stats w1 where l: "for_each (process_uid this options) (uidsToProcess options uids)
                (\<lparr>synced = 0, skipped = 0, errors = 0\<rparr>, w) = (r1, stats, w1)"
    by (cases "for_each (process_uid this options) (uidsToProcess options uids)
                (\<lparr>synced = 0, skipped = 0, errors = 0\<rparr>, w)")
  from sync_loop_props [OF l] have "r1 = Inr ()" by blast
  with assms Inr l show ?thesis
    by (auto simp: syncEmails_def Let_def split: if_splits)
qed

lemma syncEmails_run:
  assumes "es_connect (emailSearcher this)"
      and "es_open (emailSearcher this)
                (case so_folder options of
                   Some f \<Rightarrow> if f = [] \<or> f = ''INBOX'' then ''INBOX'' else f
                 | None \<Rightarrow> ''INBOX'')"
      and "es_searchEmails (emailSearcher this) (sync_criteria options (clock w)) = Inr uids"
      and "for_each (process_uid this options) (uidsToProcess options uids)
                (\<lparr>synced = 0, skipped = 0, errors = 0\<rparr>, w) = (Inr (), stats, w')"
  shows "syncEmails this options w = (Inr stats, w')"
  using assms by (simp add: syncEmails_def Let_def)

lemma uidsToProcess_limit:
  "so_limit options = None \<or> so_limit options = Some 0 \<Longrightarrow> uidsToProcess options uids = uids"
  "so_limit options = Some l \<Longrightarrow> 0 < l \<Longrightarrow> uidsToProcess options uids = take (nat l) uids"
  "so_limit options = Some l \<Longrightarrow> l < 0 \<Longrightarrow>
     uidsToProcess options uids = take (length uids - nat (- l)) uids"
  by (auto simp: uidsToProcess_def slice0_def Let_def)

text \<open>The limit is read only where the UIDs to process are cut.\<close>

lemma emailRecord_of_limit:
  "emailRecord_of this (options\<lparr>so_limit := l\<rparr>) uid rawEmail t
     = emailRecord_of this options uid rawEmail t"
  by (simp add: emailRecord_of_def)

lemma try_uid_limit:
  "try_uid this (options\<lparr>so_limit := l\<rparr>) uid sw = try_uid this options uid sw"
  by (simp add: try_uid_def emailRecord_of_limit Let_def
           cong: sum.case_cong option.case_cong if_cong)

lemma process_uid_limit:
  "process_uid this (options\<lparr>so_limit := l\<rparr>) = process_uid this options"
  by (simp add: process_uid_def try_uid_limit fun_eq_iff)

lemma sync_criteria_limit:
  "sync_criteria (options\<lparr>so_limit := l\<rparr>) t = sync_criteria options t"
  by (simp add: sync_criteria_def)


section \<open>Search criteria\<close>

text \<open>
  Claim C4, as amended.  When \<open>gmailQuery\<close> is present and not the empty string, the
  search expression is exactly \<open>[["X-GM-RAW", gmailQuery]]\<close>, whatever the fields
  \<open>query\<close>, \<open>from\<close>, \<open>to\<close>, \<open>subject\<close>, \<open>dateRange\<close>, \<open>hasAttachments\<close>, \<open>isUnread\<close>,
  \<open>minSize\<close> and \<open>maxSize\<close> hold.
\<close>

theorem gmailQuery_authoritative:
  assumes "sc_gmailQuery criteria = Some q" and "q \<noteq> []"
  shows "buildImapSearchCriteria criteria = [Arr [Str ''X-GM-RAW'', Str q]]
       \<and> buildImapSearchCriteria
            (criteria\<lparr>sc_query := a, sc_from := b, sc_to := c, sc_subject := d,
                      sc_dateRange := e, sc_hasAttachments := f, sc_isUnread := g,
                      sc_minSize := h, sc_maxSize := i\<rparr>)
          = buildImapSearchCriteria criteria"
  using assms by (simp add: buildImapSearchCriteria_def or_null_def)

text \<open>The search-precedence scenario: \<open>gmailQuery\<close> together with \<open>from\<close>.\<close>

theorem gmailQuery_authoritative_witness:
  "sc_gmailQuery criteria_scenario5 = Some ''is:unread from:me''
   \<and> buildImapSearchCriteria criteria_scenario5 = [Arr [Str ''X-GM-RAW'', Str ''is:unread from:me'']]"
  using gmailQuery_authoritative [of criteria_scenario5 "''is:unread from:me''"]
  by (simp add: criteria_scenario5_def no_criteria_def)

text \<open>An empty \<open>gmailQuery\<close> is present but falsy: the other fields are used.\<close>

theorem gmailQuery_empty_counterexample:
  "sc_gmailQuery criteria_empty_gmailQuery = Some []
   \<and> buildImapSearchCriteria criteria_empty_gmailQuery = [Arr [Str ''FROM'', Str ''boss@'']]
   \<and> buildImapSearchCriteria criteria_empty_gmailQuery \<noteq> [Arr [Str ''X-GM-RAW'', Str []]]"
  by (simp add: criteria_empty_gmailQuery_def no_criteria_def buildImapSearchCriteria_def
        or_null_def address_terms_def num_or_def)


section \<open>Flag updates\<close>

text \<open>
  Claim C8, as amended.  With no field provided \<open>updateEmailFlags\<close> leaves the store as
  it is (\<open>updated_at\<close> included).  With at least one field provided, every row with
  another message-id is unchanged, and in every row with that message-id each provided
  field has the provided value, \<open>updated_at\<close> is the current time, and all the other
  columns are unchanged; no row is added or removed, and the other tables are
  unchanged.
\<close>

theorem updateEmailFlags_frame:
  "(u = no_updates \<longrightarrow> updateEmailFlags now m u d = d)
   \<and> (u \<noteq> no_updates \<longrightarrow>
        length (emails (updateEmailFlags now m u d)) = length (emails d)
      \<and> (\<forall>i < length (emails d).
            let r = emails d ! i; r' = emails (updateEmailFlags now m u d) ! i
            in (message_id r \<noteq> m \<longrightarrow> r' = r)
             \<and> (message_id r = m \<longrightarrow>
                  is_read r' = (case upd_isRead u of Some b \<Rightarrow> b | None \<Rightarrow> is_read r)
                \<and> is_starred r' = (case upd_isStarred u of Some b \<Rightarrow> b | None \<Rightarrow> is_starred r)
                \<and> is_important r' = (case upd_isImportant u of Some b \<Rightarrow> b | None \<Rightarrow> is_important r)
                \<and> labels r' = (case upd_labels u of Some ls \<Rightarrow> Some ls | None \<Rightarrow> labels r)
                \<and> folder r' = (case upd_folder u of Some f \<Rightarrow> f | None \<Rightarrow> folder r)
                \<and> updated_at r' = now
                \<and> r'\<lparr>is_read := is_read r, is_starred := is_starred r,
                      is_important := is_important r, labels := labels r,
                      folder := folder r, updated_at := updated_at r\<rparr> = r))
      \<and> attachments (updateEmailFlags now m u d) = attachments d
      \<and> recipients (updateEmailFlags now m u d) = recipients d
      \<and> next_email_id (updateEmailFlags now m u d) = next_email_id d)"
proof (intro conjI impI)
  assume "u = no_updates"
  then show "updateEmailFlags now m u d = d"
    by (simp add: updateEmailFlags_def no_updates_def)
next
  assume nz: "u \<noteq> no_updates"
  show "length (emails (updateEmailFlags now m u d)) = length (emails d)"
    using nz by (simp add: emails_updateEmailFlags)
  show "\<forall>i < length (emails d).
            let r = emails d ! i; r' = emails (updateEmailFlags now m u d) ! i
            in (message_id r \<noteq> m \<longrightarrow> r' = r)
             \<and> (message_id r = m \<longrightarrow>
                  is_read r' = (case upd_isRead u of Some b \<Rightarrow> b | None \<Rightarrow> is_read r)
                \<and> is_starred r' = (case upd_isStarred u of Some b \<Rightarrow> b | None \<Rightarrow> is_starred r)
                \<and> is_important r' = (case upd_isImportant u of Some b \<Rightarrow> b | None \<Rightarrow> is_important r)
                \<and> labels r' = (case upd_labels u of Some ls \<Rightarrow> Some ls | None \<Rightarrow> labels r)
                \<and> folder r' = (case upd_folder u of Some f \<Rightarrow> f | None \<Rightarrow> folder r)
                \<and> updated_at r' = now
                \<and> r'\<lparr>is_read := is_read r, is_starred := is_starred r,
                      is_important := is_important r, labels := labels r,
                      folder := folder r, updated_at := updated_at r\<rparr> = r)"
    using nz by (simp add: emails_updateEmailFlags set_clauses_def Let_def)
  show "attachments (updateEmailFlags now m u d) = attachments d"
    by (simp add: updateEmailFlags_def Let_def)
  show "recipients (updateEmailFlags now m u d) = recipients d"
    by (simp add: updateEmailFlags_def Let_def)
  show "next_email_id (updateEmailFlags now m u d) = next_email_id d"
    by (simp add: updateEmailFlags_def Let_def)
qed


text \<open>Starring the first of two stored messages at time 5: its row is starred and
  touched, its other columns and the row of the second message are as before; and
  with no field provided the store is unchanged.\<close>

theorem updateEmailFlags_frame_witness:
  "map message_id (emails two_db) = [''<a@x>'', ''<b@x>'']
   \<and> is_starred (emails (updateEmailFlags 5 ''<a@x>''
                           (no_updates\<lparr>upd_isStarred := Some True\<rparr>) two_db) ! 0)
   \<and> updated_at (emails (updateEmailFlags 5 ''<a@x>''
                           (no_updates\<lparr>upd_isStarred := Some True\<rparr>) two_db) ! 0) = 5
   \<and> is_read (emails (updateEmailFlags 5 ''<a@x>''
                           (no_updates\<lparr>upd_isStarred := Some True\<rparr>) two_db) ! 0)
       = is_read (emails two_db ! 0)
   \<and> emails (updateEmailFlags 5 ''<a@x>'' (no_updates\<lparr>upd_isStarred := Some True\<rparr>) two_db) ! 1
       = emails two_db ! 1
   \<and> updateEmailFlags 5 ''<a@x>'' no_updates two_db = two_db"
proof -
  let ?u = "no_updates\<lparr>upd_isStarred := Some True\<rparr>"
  let ?d = "updateEmailFlags 5 ''<a@x>'' ?u two_db"
  have a: "?u \<noteq> no_updates" by (simp add: no_updates_def)
  have ids: "map message_id (emails two_db) = [''<a@x>'', ''<b@x>'']" by code_simp
  have len: "length (emails two_db) = 2" by code_simp
  have m0: "message_id (emails two_db ! 0) = ''<a@x>''" by code_simp
  have m1: "message_id (emails two_db ! 1) \<noteq> ''<a@x>''" by code_simp
  have d: "upd_isStarred ?u = Some True" "upd_isRead ?u = None"
    by (simp_all add: no_updates_def)
  from updateEmailFlags_frame [of ?u 5 "''<a@x>''" two_db] a
  have all: "\<forall>i < length (emails two_db).
          let r = emails two_db ! i; r' = emails ?d ! i
          in (message_id r \<noteq> ''<a@x>'' \<longrightarrow> r' = r)
           \<and> (message_id r = ''<a@x>'' \<longrightarrow>
               is_read r' = (case upd_isRead ?u of Some b \<Rightarrow> b | None \<Rightarrow> is_read r)
             \<and> is_starred r' = (case upd_isStarred ?u of Some b \<Rightarrow> b | None \<Rightarrow> is_starred r)
             \<and> updated_at r' = 5)"
    by (simp add: Let_def)
  from all len m0 d have r0: "is_starred (emails ?d ! 0)" "updated_at (emails ?d ! 0) = 5"
    "is_read (emails ?d ! 0) = is_read (emails two_db ! 0)"
    by (simp_all add: Let_def)
  from all len m1 have r1: "emails ?d ! 1 = emails two_db ! 1"
    by (simp add: Let_def)
  from updateEmailFlags_frame [of no_updates 5 "''<a@x>''" two_db]
  have r2: "updateEmailFlags 5 ''<a@x>'' no_updates two_db = two_db" by blast
  from ids r0 r1 r2 show ?thesis by blast
qed

text \<open>With no field provided the matching row keeps its \<open>updated_at\<close> of 1 at
  time 5.\<close>

theorem updateEmailFlags_empty_counterexample:
  "map message_id (emails sample_db) = [''<a@x>'']
   \<and> map updated_at (emails (updateEmailFlags 5 ''<a@x>'' no_updates sample_db)) = [1]"
  by code_simp

section \<open>Context operations\<close>

text \<open>
  Claim C1 says that a context email operation on a stored email that has an IMAP UID
  issues the remote IMAP operation and applies the local mutation after it succeeded.
  With the manager constructed as in \<open>server.ts\<close>, over the \<open>DatabaseManager\<close> of
  \<open>database-manager.ts\<close>, this is not what the code does.  For each of the seven email
  methods of the context and every message-id of a stored row, whatever the \<open>imap_uid\<close>
  column of the row holds, the method throws \<open>Email missing IMAP UID\<close>; no request is
  sent to the IMAP server and nothing is written: the record returned by
  \<open>getEmailByMessageId\<close> is built by \<open>mapRowToEmailRecord\<close>, which never sets \<open>imapUid\<close>.
\<close>

theorem email_method_throws_despite_uid:
  assumes "databaseManager this = getEmailByMessageId"
      and "target_email c = Some emailId"
      and "select_by_message_id (db w) emailId = Some row"
  shows "createContext this listenerConfig c w = (Inl (EmailMissingImapUid emailId), w)"
proof -
  from email_method_unfold [OF assms(2), of this listenerConfig]
  obtain rqf updf where eq:
    "createContext this listenerConfig c w =
       (case resolve_email this emailId w of
          Inl e \<Rightarrow> (Inl e, w)
        | Inr (email, uid) \<Rightarrow> remote_then_local this (rqf email uid) emailId (updf email) w)"
    by blast
  from resolve_email_wired [OF assms(1), of emailId w] assms(3)
  have "resolve_email this emailId w = Inl (EmailMissingImapUid emailId)" by simp
  with eq show ?thesis by simp
qed

text \<open>The message stored by a sync insert with UID 7; the server accepts every request.\<close>

theorem email_method_throws_despite_uid_witness:
  "map imap_uid (emails (db sample_world)) = [Some 7]
   \<and> createContext (wired_manager True) sample_config (starEmail ''<a@x>'') sample_world
       = (Inl (EmailMissingImapUid ''<a@x>''), sample_world)"
proof
  show "map imap_uid (emails (db sample_world)) = [Some 7]" by code_simp
  have m: "databaseManager (wired_manager True) = getEmailByMessageId"
    by (simp add: wired_manager_def)
  have s: "select_by_message_id (db sample_world) ''<a@x>'' = Some (hd (emails (db sample_world)))"
    by code_simp
  from email_method_throws_despite_uid
         [where this = "wired_manager True" and c = "starEmail ''<a@x>''"
            and emailId = "''<a@x>''" and w = sample_world and listenerConfig = sample_config,
          OF m _ s]
  show "createContext (wired_manager True) sample_config (starEmail ''<a@x>'') sample_world
       = (Inl (EmailMissingImapUid ''<a@x>''), sample_world)"
    by simp
qed

section \<open>Dispatch\<close>



section \<open>Adding a label\<close>

text \<open>
  Claim C10 says that after any number of calls \<open>addLabel(id, L)\<close> on a stored email
  with a UID the stored labels contain L exactly once.  With the manager constructed as
  in \<open>server.ts\<close> the label is never added.  The store holds the message that a sync
  insert stored with UID 7 and no labels, and the server accepts every request: the call
  \<open>addLabel('<a@x>', 'x')\<close> throws \<open>Email missing IMAP UID\<close> and leaves the world as it
  was, and after three such calls no request has been sent and the stored labels of the
  message still do not contain the label.
\<close>

theorem addLabel_never_adds_label:
  "map imap_uid (emails (db sample_world)) = [Some 7]
   \<and> stored_labels (db sample_world) ''<a@x>'' = []
   \<and> createContext (wired_manager True) sample_config (addLabel ''<a@x>'' ''x'') sample_world
       = (Inl (EmailMissingImapUid ''<a@x>''), sample_world)
   \<and> count_list
       (stored_labels
          (db (((\<lambda>w. snd (createContext (wired_manager True) sample_config
                             (addLabel ''<a@x>'' ''x'') w)) ^^ 3) sample_world))
          ''<a@x>'') ''x'' = 0
   \<and> imap_log (((\<lambda>w. snd (createContext (wired_manager True) sample_config
                             (addLabel ''<a@x>'' ''x'') w)) ^^ 3) sample_world) = []"
  by code_simp

section \<open>Loading the listeners\<close>

text \<open>
  Claim C6, as amended.  After \<open>loadAllListeners\<close> the registry is keyed by \<open>config.id\<close>:
  it holds, for each \<open>config.id\<close> exported by a file that has the \<open>.ts\<close> extension,
  does not start with \<open>.\<close> or \<open>_\<close>, imports without error, exports both a \<open>config\<close> and
  a \<open>handler\<close> and has \<open>config.enabled\<close> true, exactly one module, that of the last such
  file in the directory listing; no other key is present, whatever the registry held
  before.  When these files export pairwise different ids, the registry holds exactly
  one module per such file, in the order of the listing.  The other fields of the
  manager are unchanged and the configs returned are those of the registry.
\<close>

theorem loadAllListeners_registry:
  assumes "loadAllListeners dir this = (configs, this')"
  shows "map_of (listeners this') = map_of (rev (registrations dir))
       \<and> set (map fst (listeners this')) = set (map fst (registrations dir))
       \<and> distinct (map fst (listeners this'))
       \<and> (distinct (map fst (registrations dir)) \<longrightarrow> listeners this' = registrations dir)
       \<and> configs = map (\<lambda>l. config (snd l)) (listeners this')
       \<and> this' = this\<lparr>listeners := listeners this'\<rparr>"
proof -
  let ?loaded = "case readdir dir of
               Inl error \<Rightarrow> this\<lparr>listeners := []\<rparr>
             | Inr files \<Rightarrow>
                 fold (\<lambda>file m. if loadable file then loadListener dir file m else m) files
                   (this\<lparr>listeners := []\<rparr>)"
  let ?regs = "fold (\<lambda>(k, v). map_set k v) (registrations dir) []"
  have loaded: "?loaded = this\<lparr>listeners := ?regs\<rparr>"
    by (cases "readdir dir") (simp_all add: registrations_def fold_loadListener)
  from assms have e: "?loaded = this'" and c: "map (\<lambda>l. config (snd l)) (listeners ?loaded) = configs"
    by (auto simp add: loadAllListeners_def Let_def)
  from e loaded have t: "this' = this\<lparr>listeners := ?regs\<rparr>" by simp
  then have l: "listeners this' = ?regs" by simp
  from c e have c': "configs = map (\<lambda>l. config (snd l)) (listeners this')" by simp
  have "this\<lparr>listeners := ?regs\<rparr> = this\<lparr>listeners := listeners (this\<lparr>listeners := ?regs\<rparr>)\<rparr>"
    by simp
  then have t': "this' = this\<lparr>listeners := listeners this'\<rparr>"
    unfolding t [symmetric] .
  have 1: "map_of (listeners this') = map_of (rev (registrations dir))"
    by (simp only: l fold_map_set_map_of)
  have 2: "set (map fst (listeners this')) = set (map fst (registrations dir))"
    by (simp add: l fold_map_set_keys)
  have 3: "distinct (map fst (listeners this'))"
    by (simp add: l fold_map_set_distinct)
  have 4: "distinct (map fst (registrations dir)) \<longrightarrow> listeners this' = registrations dir"
    using fold_map_set_fresh [of "[]" "registrations dir"] by (simp add: l)
  from 1 2 3 4 c' t' show ?thesis by blast
qed

text \<open>A directory where one file fails to import, three are passed over for their
  names, one is disabled and one exports no handler: the two remaining files are
  registered.\<close>

theorem loadAllListeners_registry_witness:
  "distinct (map fst (registrations mixed_dir))
   \<and> listeners (snd (loadAllListeners mixed_dir scenario6_manager)) = registrations mixed_dir
   \<and> map fst (listeners (snd (loadAllListeners mixed_dir scenario6_manager)))
       = [''urgent.ts'', ''archive.ts'']"
proof -
  have d: "distinct (map fst (registrations mixed_dir))" by code_simp
  have p: "loadAllListeners mixed_dir scenario6_manager
             = (fst (loadAllListeners mixed_dir scenario6_manager),
                snd (loadAllListeners mixed_dir scenario6_manager))" by simp
  from loadAllListeners_registry [OF p] d
  have l: "listeners (snd (loadAllListeners mixed_dir scenario6_manager)) = registrations mixed_dir"
    by blast
  have "map fst (registrations mixed_dir) = [''urgent.ts'', ''archive.ts'']" by code_simp
  with d l show ?thesis by simp
qed

text \<open>Two files that export the same \<open>config.id\<close>: both qualify, one module is
  registered.\<close>

theorem loadAllListeners_duplicate_id_counterexample:
  "map fst (registrations dup_dir) = [''dup'', ''dup'']
   \<and> map fst (listeners (snd (loadAllListeners dup_dir scenario6_manager))) = [''dup'']"
  by code_simp

section \<open>Upsert\<close>

text \<open>
  Claim C5 says that \<open>upsertEmail\<close> returns the key of the row it inserted or updated.
  The code does not: for every record, every attachment list and every content of the
  database, \<open>upsertEmail\<close> throws when it prepares its \<open>INSERT\<close>, because the statement
  names the column \<open>to_addresses\<close> (and \<open>cc_addresses\<close>, \<open>bcc_addresses\<close>), which the table
  \<open>emails\<close> does not have; no key is returned and nothing is written.
\<close>

theorem upsertEmail_throws_at_prepare:
  "upsertEmail now email atts d = (Inl (NoSuchColumn ''to_addresses''), d)"
  by (simp add: upsertEmail_def prepare_upsert)

section \<open>Snippets\<close>

text \<open>
  Claim C9.  A run of \<open>syncEmails\<close>, whatever the mailbox returns and whatever the
  listeners do, leaves the snippets of the rows that were stored before as they were and
  adds rows after them, one for each message it counts as synced, and the snippet of
  every row it adds has at most 200 characters (or is \<open>NULL\<close>).  \<open>upsertEmail\<close> stores no
  row, so no snippet either.
\<close>

theorem stored_snippet_bound:
  "(\<exists>new. map snippet (emails (db (snd (syncEmails this options w))))
            = map snippet (emails (db w)) @ new
        \<and> list_all snippet_ok new
        \<and> (\<forall>stats. fst (syncEmails this options w) = Inr stats \<longrightarrow> length new = synced stats))
   \<and> emails (snd (upsertEmail now email atts d)) = emails d"
proof
  obtain r w' where s: "syncEmails this options w = (r, w')"
    by (cases "syncEmails this options w")
  from syncEmails_cases [OF s]
  have "\<exists>new. map snippet (emails (db w')) = map snippet (emails (db w)) @ new
        \<and> list_all snippet_ok new
        \<and> (\<forall>stats. r = Inr stats \<longrightarrow> length new = synced stats)"
  proof (elim disjE exE conjE)
    assume "isl r" "w' = w"
    then have "map snippet (emails (db w')) = map snippet (emails (db w)) @ []
        \<and> list_all snippet_ok []
        \<and> (\<forall>stats. r = Inr stats \<longrightarrow> length ([] :: string option list) = synced stats)"
      by auto
    then show ?thesis ..
  next
    fix uids stats
    assume l: "for_each (process_uid this options) (uidsToProcess options uids)
                (\<lparr>synced = 0, skipped = 0, errors = 0\<rparr>, w) = (Inr (), stats, w')"
      and r: "r = Inr stats"
    from sync_loop_props [OF l]
    have "sync_rows \<lparr>synced = 0, skipped = 0, errors = 0\<rparr> w stats w'" by blast
    with r show ?thesis by (auto simp: sync_rows_def)
  qed
  with s show "\<exists>new. map snippet (emails (db (snd (syncEmails this options w))))
            = map snippet (emails (db w)) @ new
        \<and> list_all snippet_ok new
        \<and> (\<forall>stats. fst (syncEmails this options w) = Inr stats \<longrightarrow> length new = synced stats)"
    by simp
  show "emails (snd (upsertEmail now email atts d)) = emails d"
    by (simp add: upsertEmail_refused)
qed

text \<open>A message with a body of 300 characters is synced into an empty store: the one row
  stored has a snippet of 200 characters.\<close>

theorem stored_snippet_bound_witness:
  "fst (syncEmails (sample_service long_raw) sample_options empty_world)
     = Inr \<lparr>synced = 1, skipped = 0, errors = 1\<rparr>
   \<and> map snippet (emails (db empty_world)) = []
   \<and> map (map_option length)
       (map snippet (emails (db (snd (syncEmails (sample_service long_raw) sample_options
                                        empty_world))))) = [Some 200]
   \<and> (\<exists>new. map snippet (emails (db (snd (syncEmails (sample_service long_raw) sample_options
                                              empty_world)))) = new
          \<and> list_all snippet_ok new \<and> length new = 1)"
proof (intro conjI)
  let ?run = "syncEmails (sample_service long_raw) sample_options empty_world"
  show f: "fst ?run = Inr \<lparr>synced = 1, skipped = 0, errors = 1\<rparr>" by code_simp
  show e: "map snippet (emails (db empty_world)) = []" by code_simp
  show "map (map_option length) (map snippet (emails (db (snd ?run)))) = [Some 200]"
    by code_simp
  from stored_snippet_bound [of "sample_service long_raw" sample_options empty_world]
  obtain new where "map snippet (emails (db (snd ?run))) = map snippet (emails (db empty_world)) @ new"
    "list_all snippet_ok new"
    "\<forall>stats. fst ?run = Inr stats \<longrightarrow> length new = synced stats"
    by blast
  with f e have "map snippet (emails (db (snd ?run))) = new \<and> list_all snippet_ok new \<and> length new = 1"
    by simp
  then show "\<exists>new. map snippet (emails (db (snd ?run))) = new
          \<and> list_all snippet_ok new \<and> length new = 1" ..
qed

section \<open>The limit of a sync run\<close>

text \<open>
  Claim C7, as amended.  A run of \<open>syncEmails\<close> with \<open>limit = 0\<close> is the run with no limit:
  same result and same effects.  When it returns, it has fetched every UID the search
  returned, once and in order, and has counted each of them once as synced, skipped or
  error.
\<close>

theorem sync_limit_zero:
  assumes "so_limit options = Some 0"
  shows "syncEmails this options w = syncEmails this (options\<lparr>so_limit := None\<rparr>) w
       \<and> (\<forall>stats w' uids.
            syncEmails this options w = (Inr stats, w')
          \<and> es_searchEmails (emailSearcher this) (sync_criteria options (clock w)) = Inr uids \<longrightarrow>
            fetched w' = fetched w @ uids
          \<and> synced stats + skipped stats + errors stats = length uids)"
proof
  have "uidsToProcess (options\<lparr>so_limit := None\<rparr>) = uidsToProcess options"
    using assms by (simp add: fun_eq_iff uidsToProcess_def)
  then show "syncEmails this options w = syncEmails this (options\<lparr>so_limit := None\<rparr>) w"
    by (simp add: syncEmails_def process_uid_limit sync_criteria_limit Let_def
             cong: sum.case_cong if_cong)
  show "\<forall>stats w' uids.
            syncEmails this options w = (Inr stats, w')
          \<and> es_searchEmails (emailSearcher this) (sync_criteria options (clock w)) = Inr uids \<longrightarrow>
            fetched w' = fetched w @ uids
          \<and> synced stats + skipped stats + errors stats = length uids"
  proof (intro allI impI, elim conjE)
    fix stats w' uids
    assume run: "syncEmails this options w = (Inr stats, w')"
      and se: "es_searchEmails (emailSearcher this) (sync_criteria options (clock w)) = Inr uids"
    from syncEmails_cases [OF run] se
    have l: "for_each (process_uid this options) (uidsToProcess options uids)
                (\<lparr>synced = 0, skipped = 0, errors = 0\<rparr>, w) = (Inr (), stats, w')"
      by auto
    from assms have "uidsToProcess options uids = uids" by (simp add: uidsToProcess_limit(1))
    with sync_loop_props [OF l]
    show "fetched w' = fetched w @ uids
          \<and> synced stats + skipped stats + errors stats = length uids"
      by auto
  qed
qed

text \<open>The search returns the UIDs 7 and 8.  With limit 0 both are fetched, as with no
  limit: one message is stored and one fetch fails.\<close>

theorem sync_limit_zero_witness:
  "so_limit (sample_options\<lparr>so_limit := Some 0\<rparr>) = Some 0
   \<and> syncEmails (sample_service sample_raw) (sample_options\<lparr>so_limit := Some 0\<rparr>) empty_world
       = syncEmails (sample_service sample_raw) (sample_options\<lparr>so_limit := None\<rparr>) empty_world
   \<and> fst (syncEmails (sample_service sample_raw) (sample_options\<lparr>so_limit := Some 0\<rparr>) empty_world)
       = Inr \<lparr>synced = 1, skipped = 0, errors = 1\<rparr>
   \<and> fetched (snd (syncEmails (sample_service sample_raw) (sample_options\<lparr>so_limit := Some 0\<rparr>)
                     empty_world)) = [7, 8]"
proof -
  let ?S = "sample_service sample_raw"
  let ?o0 = "sample_options\<lparr>so_limit := Some 0\<rparr>"
  have l0: "so_limit ?o0 = Some 0" by simp
  have se: "es_searchEmails (emailSearcher ?S) (sync_criteria ?o0 (clock empty_world)) = Inr [7, 8]"
    by (simp add: sample_service_def)
  have f0: "fst (syncEmails ?S ?o0 empty_world) = Inr \<lparr>synced = 1, skipped = 0, errors = 1\<rparr>"
    by code_simp
  then have r0: "syncEmails ?S ?o0 empty_world
                   = (Inr \<lparr>synced = 1, skipped = 0, errors = 1\<rparr>, snd (syncEmails ?S ?o0 empty_world))"
    by (simp add: prod_eq_iff)
  have e: "fetched empty_world = []" by (simp add: empty_world_def sample_world_def)
  note t = sync_limit_zero [OF l0, of ?S empty_world]
  from t have eq: "syncEmails ?S ?o0 empty_world = syncEmails ?S (?o0\<lparr>so_limit := None\<rparr>) empty_world"
    by (elim conjE)
  from t r0 se e have "fetched (snd (syncEmails ?S ?o0 empty_world)) = [7, 8]"
    by (elim conjE) auto
  with eq f0 l0 show ?thesis by simp
qed

text \<open>With \<open>limit = 0\<close> the run fetches both UIDs, stores one message and counts one
  error.\<close>

theorem sync_limit_zero_counterexample:
  "fst (syncEmails (sample_service sample_raw) (sample_options\<lparr>so_limit := Some 0\<rparr>) empty_world)
     = Inr \<lparr>synced = 1, skipped = 0, errors = 1\<rparr>
   \<and> fetched (snd (syncEmails (sample_service sample_raw) (sample_options\<lparr>so_limit := Some 0\<rparr>)
                     empty_world)) = [7, 8]"
  by code_simp

section \<open>Sync and messages already stored\<close>

text \<open>
  Claim C2, as amended.  When the fetched message has a message-id that is in the
  store, the body of the loop increments \<open>skipped\<close> and changes nothing else but the
  record of the fetch: no row is inserted or modified and no event is dispatched.  When
  a run has returned, and every message it fetched carries a non-empty Message-ID, a
  second run with the same options whose search returns the same UIDs returns with
  \<open>synced = 0\<close>, \<open>skipped\<close> equal to the first run's synced plus skipped, the same
  \<open>errors\<close>, and leaves the store unchanged, whatever the time of the second run.
\<close>

theorem sync_skips_existing:
  "(es_fetchEmail (emailSearcher this) uid = Inr rawEmail
      \<and> raw_messageId rawEmail = Some m \<and> select_by_message_id (db w) m \<noteq> None \<longrightarrow>
    process_uid this options uid (stats, w) =
      (Inr (), stats\<lparr>skipped := skipped stats + 1\<rparr>, w\<lparr>fetched := fetched w @ [uid]\<rparr>))
   \<and> (syncEmails this options w = (Inr stats1, w1)
      \<and> es_searchEmails (emailSearcher this) (sync_criteria options t2)
          = es_searchEmails (emailSearcher this) (sync_criteria options (clock w))
      \<and> (\<forall>uids. es_searchEmails (emailSearcher this) (sync_criteria options (clock w)) = Inr uids
             \<longrightarrow> (\<forall>uid \<in> set (uidsToProcess options uids). has_message_id this uid)) \<longrightarrow>
      (\<exists>stats2 w2.
          syncEmails this options (w1\<lparr>clock := t2\<rparr>) = (Inr stats2, w2)
        \<and> synced stats2 = 0
        \<and> skipped stats2 = synced stats1 + skipped stats1
        \<and> errors stats2 = errors stats1
        \<and> db w2 = db w1))"
proof (intro conjI impI)
  assume "es_fetchEmail (emailSearcher this) uid = Inr rawEmail
      \<and> raw_messageId rawEmail = Some m \<and> select_by_message_id (db w) m \<noteq> None"
  then have f: "es_fetchEmail (emailSearcher this) uid = Inr rawEmail"
    and a: "absorbed this options (db w) uid"
    by (simp_all add: absorbed_Inr)
  from process_uid_absorbed [OF a, of stats] f
  show "process_uid this options uid (stats, w) =
      (Inr (), stats\<lparr>skipped := skipped stats + 1\<rparr>, w\<lparr>fetched := fetched w @ [uid]\<rparr>)"
    by simp
next
  assume h: "syncEmails this options w = (Inr stats1, w1)
      \<and> es_searchEmails (emailSearcher this) (sync_criteria options t2)
          = es_searchEmails (emailSearcher this) (sync_criteria options (clock w))
      \<and> (\<forall>uids. es_searchEmails (emailSearcher this) (sync_criteria options (clock w)) = Inr uids
             \<longrightarrow> (\<forall>uid \<in> set (uidsToProcess options uids). has_message_id this uid))"
  let ?zero = "\<lparr>synced = 0, skipped = 0, errors = 0\<rparr>"
  from h syncEmails_cases [of this options w "Inr stats1" w1]
  obtain uids where c: "es_connect (emailSearcher this)"
    and o: "es_open (emailSearcher this)
                (case so_folder options of
                   Some f \<Rightarrow> if f = [] \<or> f = ''INBOX'' then ''INBOX'' else f
                 | None \<Rightarrow> ''INBOX'')"
    and se: "es_searchEmails (emailSearcher this) (sync_criteria options (clock w)) = Inr uids"
    and l1: "for_each (process_uid this options) (uidsToProcess options uids) (?zero, w)
               = (Inr (), stats1, w1)"
    by auto
  let ?uids = "uidsToProcess options uids"
  from h se have ids: "\<forall>uid \<in> set ?uids. has_message_id this uid" by blast
  from sync_loop_absorbs [OF ids l1]
  have ab: "\<forall>uid \<in> set ?uids. absorbed this options (db w1) uid"
    and e1: "errors stats1 = fetch_failures this ?uids"
    and s1: "synced stats1 + skipped stats1 = fetch_successes this ?uids"
    by simp_all
  let ?w1 = "w1\<lparr>clock := t2\<rparr>"
  let ?stats2 = "?zero\<lparr>skipped := skipped ?zero + fetch_successes this ?uids,
                        errors := errors ?zero + fetch_failures this ?uids\<rparr>"
  let ?w2 = "?w1\<lparr>fetched := fetched ?w1 @ ?uids\<rparr>"
  from ab have ab': "\<forall>uid \<in> set ?uids. absorbed this options (db ?w1) uid" by simp
  from h se have se2: "es_searchEmails (emailSearcher this) (sync_criteria options (clock ?w1))
                         = Inr uids" by simp
  have "syncEmails this options ?w1 = (Inr ?stats2, ?w2)"
    by (rule syncEmails_run [OF c o se2]) (rule sync_loop_absorbed [OF ab'])
  moreover have "synced ?stats2 = 0" "skipped ?stats2 = synced stats1 + skipped stats1"
    "errors ?stats2 = errors stats1" "db ?w2 = db w1"
    using e1 s1 by simp_all
  ultimately show "\<exists>stats2 w2.
          syncEmails this options (w1\<lparr>clock := t2\<rparr>) = (Inr stats2, w2)
        \<and> synced stats2 = 0
        \<and> skipped stats2 = synced stats1 + skipped stats1
        \<and> errors stats2 = errors stats1
        \<and> db w2 = db w1"
    by blast
qed

text \<open>Two runs over the sample mailbox, at times 1000 and 2000: the first stores the
  message of UID 7 and fails on UID 8; the second skips UID 7, fails on UID 8 and leaves
  the store as it was.  The last conjunct is the body of the loop for UID 7 on a
  store that already holds its message.\<close>

theorem sync_skips_existing_witness:
  "fst (syncEmails (sample_service sample_raw) sample_options empty_world)
     = Inr \<lparr>synced = 1, skipped = 0, errors = 1\<rparr>
   \<and> fst (syncEmails (sample_service sample_raw) sample_options
            ((snd (syncEmails (sample_service sample_raw) sample_options empty_world))
               \<lparr>clock := 2000\<rparr>))
     = Inr \<lparr>synced = 0, skipped = 1, errors = 1\<rparr>
   \<and> db (snd (syncEmails (sample_service sample_raw) sample_options
             ((snd (syncEmails (sample_service sample_raw) sample_options empty_world))
                \<lparr>clock := 2000\<rparr>)))
     = db (snd (syncEmails (sample_service sample_raw) sample_options empty_world))
   \<and> process_uid (sample_service sample_raw) sample_options 7
         (\<lparr>synced = 0, skipped = 0, errors = 0\<rparr>, sample_world)
     = (Inr (), \<lparr>synced = 0, skipped = 1, errors = 0\<rparr>, sample_world\<lparr>fetched := [7]\<rparr>)"
proof -
  let ?S = "sample_service sample_raw"
  let ?w1 = "snd (syncEmails ?S sample_options empty_world)"
  have f1: "fst (syncEmails ?S sample_options empty_world)
              = Inr \<lparr>synced = 1, skipped = 0, errors = 1\<rparr>"
    by code_simp
  then have r1: "syncEmails ?S sample_options empty_world
                   = (Inr \<lparr>synced = 1, skipped = 0, errors = 1\<rparr>, ?w1)"
    by (simp add: prod_eq_iff)
  have se: "es_searchEmails (emailSearcher ?S) (sync_criteria sample_options 2000)
              = es_searchEmails (emailSearcher ?S) (sync_criteria sample_options (clock empty_world))"
    by (simp add: sample_service_def)
  have ids: "\<forall>uids. es_searchEmails (emailSearcher ?S)
                       (sync_criteria sample_options (clock empty_world)) = Inr uids
               \<longrightarrow> (\<forall>uid \<in> set (uidsToProcess sample_options uids). has_message_id ?S uid)"
    by (auto simp: sample_service_def uidsToProcess_def sample_options_def slice0_def
          has_message_id_def sample_raw_def or_null_def)
  from sync_skips_existing
         [where this = ?S and options = sample_options and w = empty_world
            and ?stats1.0 = "\<lparr>synced = 1, skipped = 0, errors = 1\<rparr>" and ?w1.0 = ?w1
            and ?t2.0 = 2000, THEN conjunct2]
       r1 se ids
  have "\<exists>stats2 w2.
          syncEmails ?S sample_options (?w1\<lparr>clock := 2000\<rparr>) = (Inr stats2, w2)
        \<and> synced stats2 = 0
        \<and> skipped stats2 = synced \<lparr>synced = 1, skipped = 0, errors = 1\<rparr>
                           + skipped \<lparr>synced = 1, skipped = 0, errors = 1\<rparr>
        \<and> errors stats2 = errors \<lparr>synced = 1, skipped = 0, errors = 1\<rparr>
        \<and> db w2 = db ?w1"
    by blast
  then obtain stats2 w2 where
    r2: "syncEmails ?S sample_options (?w1\<lparr>clock := 2000\<rparr>) = (Inr stats2, w2)"
    and s2: "synced stats2 = 0" "skipped stats2 = 1" "errors stats2 = 1"
    and d2: "db w2 = db ?w1"
    by auto
  from s2 have "stats2 = \<lparr>synced = 0, skipped = 1, errors = 1\<rparr>" by (cases stats2) simp
  with r2 d2 have second:
    "fst (syncEmails ?S sample_options (?w1\<lparr>clock := 2000\<rparr>))
       = Inr \<lparr>synced = 0, skipped = 1, errors = 1\<rparr>"
    "db (snd (syncEmails ?S sample_options (?w1\<lparr>clock := 2000\<rparr>))) = db ?w1"
    by simp_all
  have h: "es_fetchEmail (emailSearcher ?S) 7 = Inr sample_raw
           \<and> raw_messageId sample_raw = Some ''<a@x>''
           \<and> select_by_message_id (db sample_world) ''<a@x>'' \<noteq> None"
    by code_simp
  from sync_skips_existing
         [where this = ?S and options = sample_options and w = sample_world and uid = 7
            and rawEmail = sample_raw and m = "''<a@x>''"
            and stats = "\<lparr>synced = 0, skipped = 0, errors = 0\<rparr>", THEN conjunct1] h
  have "process_uid ?S sample_options 7 (\<lparr>synced = 0, skipped = 0, errors = 0\<rparr>, sample_world)
          = (Inr (), \<lparr>synced = 0, skipped = 0, errors = 0\<rparr>\<lparr>skipped := skipped \<lparr>synced = 0, skipped = 0, errors = 0\<rparr> + 1\<rparr>,
             sample_world\<lparr>fetched := fetched sample_world @ [7]\<rparr>)"
    by blast
  then have first:
    "process_uid ?S sample_options 7 (\<lparr>synced = 0, skipped = 0, errors = 0\<rparr>, sample_world)
       = (Inr (), \<lparr>synced = 0, skipped = 1, errors = 0\<rparr>, sample_world\<lparr>fetched := [7]\<rparr>)"
    by (simp add: sample_world_def)
  from f1 second first show ?thesis by blast
qed

text \<open>The same two runs when the message of UID 7 has no Message-ID header: the first
  run stores it under the id made of the UID and the time, and so does the second.\<close>

theorem sync_twice_without_message_id_counterexample:
  "fst (syncEmails (sample_service raw_without_id) sample_options empty_world)
     = Inr \<lparr>synced = 1, skipped = 0, errors = 1\<rparr>
   \<and> fst (syncEmails (sample_service raw_without_id) sample_options
            ((snd (syncEmails (sample_service raw_without_id) sample_options empty_world))
               \<lparr>clock := 2000\<rparr>))
     = Inr \<lparr>synced = 1, skipped = 0, errors = 1\<rparr>
   \<and> map message_id (emails (db (snd (syncEmails (sample_service raw_without_id) sample_options
                                         empty_world))))
     = [''7-1000'']
   \<and> map message_id
         (emails (db (snd (syncEmails (sample_service raw_without_id) sample_options
             ((snd (syncEmails (sample_service raw_without_id) sample_options empty_world))
                \<lparr>clock := 2000\<rparr>)))))
     = [''7-1000'', ''7-2000'']"
  by code_simp

end
